theory Spec2Isabelle
  imports Main "HOL-Library.Word"
begin

unbundle bit_operations_syntax

section \<open>Go values used by package certificate\<close>

text \<open>
  A Go slice is either \<open>nil\<close> or a (possibly empty) sequence backed by an array; the two
  are told apart by \<open>s == nil\<close> and by the JSON and database encoders, while \<open>len\<close> and
  \<open>range\<close> treat a nil slice as empty.  The package never writes through a slice it has
  shared, so a slice is modelled by its nil-ness and its elements.
\<close>

datatype 'a slice = NilSlice | Slice "'a list"

fun elems :: "'a slice \<Rightarrow> 'a list" where
  "elems NilSlice = []"
| "elems (Slice xs) = xs"

definition len :: "'a slice \<Rightarrow> nat" where
  "len s = length (elems s)"

text \<open>\<open>make([]T, 0)\<close>: a non-nil slice without elements.\<close>

definition make0 :: "'a slice" where
  "make0 = Slice []"

text \<open>
  The built-in \<open>append(s, xs...)\<close>: appending nothing returns \<open>s\<close> itself (so nil stays
  nil), appending something always yields a non-nil slice.
\<close>

fun go_append :: "'a slice \<Rightarrow> 'a list \<Rightarrow> 'a slice" where
  "go_append NilSlice xs = (if xs = [] then NilSlice else Slice xs)"
| "go_append (Slice ys) xs = Slice (ys @ xs)"

text \<open>Run-time panics that the functions of the package can raise.\<close>

datatype panic = index_out_of_range | nil_pointer_dereference

text \<open>Indexing a fixed-size array \<open>tab[i]\<close> with a Go \<open>int\<close>: checked at run time.\<close>

definition index_array :: "'a list \<Rightarrow> int \<Rightarrow> panic + 'a" where
  "index_array tab i =
     (if 0 \<le> i \<and> i < int (length tab) then Inr (tab ! nat i) else Inl index_out_of_range)"

text \<open>Indexing a slice \<open>s[i]\<close> inside a \<open>range\<close> loop (the index is a natural number).\<close>

definition index_slice :: "'a slice \<Rightarrow> nat \<Rightarrow> panic + 'a" where
  "index_slice s i = (if i < len s then Inr (elems s ! i) else Inl index_out_of_range)"

type_synonym byte = "8 word"

text \<open>
  \<open>interface{}\<close> values (the field \<open>Analysis\<close>) are opaque; \<open>None\<close> is the nil interface.
\<close>

typedecl any

text \<open>
  \<open>float64(n)\<close> for an integer \<open>n\<close>: the key size and exponent are stored as the
  conversion of an integer and never computed with.
\<close>

datatype float64 = float64 int

text \<open>
  \<open>time.Time\<close>: an instant (nanoseconds since the epoch) with the location it is shown
  in.  \<open>UTC()\<close> keeps the instant and sets the location.
\<close>

record Time =
  instant :: int
  location :: string

definition Time_zero :: Time where
  "Time_zero = \<lparr>instant = 0, location = ''UTC''\<rparr>"

definition UTC :: "Time \<Rightarrow> Time" where
  "UTC t = t\<lparr>location := ''UTC''\<rparr>"

section \<open>Standard-library functions called by the package\<close>

subsection \<open>strings, strconv, encoding/hex, encoding/base64, math/big\<close>

text \<open>\<open>strings.Join(a, sep)\<close>.\<close>

fun Join :: "string list \<Rightarrow> string \<Rightarrow> string" where
  "Join [] sep = []"
| "Join [x] sep = x"
| "Join (x # y # ys) sep = x @ sep @ Join (y # ys) sep"

text \<open>\<open>strings.ToUpper\<close> on ASCII text (its only use is on hexadecimal digits).\<close>

definition ToUpper :: "string \<Rightarrow> string" where
  "ToUpper s =
     map (\<lambda>c. if 97 \<le> (of_char c :: nat) \<and> (of_char c :: nat) \<le> 122
               then char_of ((of_char c :: nat) - 32) else c) s"

definition hexdigit :: "string \<Rightarrow> nat \<Rightarrow> char" where
  "hexdigit alphabet n = alphabet ! (n mod 16)"

definition hex_of_bytes :: "string \<Rightarrow> byte list \<Rightarrow> string" where
  "hex_of_bytes alphabet bs =
     concat (map (\<lambda>b. [hexdigit alphabet (unat b div 16), hexdigit alphabet (unat b)]) bs)"

text \<open>\<open>hex.EncodeToString\<close> (lower case) and \<open>fmt.Sprintf("%X", bytes)\<close> (upper case).\<close>

definition hex_EncodeToString :: "byte list \<Rightarrow> string" where
  "hex_EncodeToString = hex_of_bytes ''0123456789abcdef''"

definition Sprintf_X :: "byte list \<Rightarrow> string" where
  "Sprintf_X = hex_of_bytes ''0123456789ABCDEF''"

text \<open>\<open>base64.StdEncoding.EncodeToString\<close>: the standard alphabet, padded with \<open>=\<close>.\<close>

definition b64digit :: "nat \<Rightarrow> char" where
  "b64digit n =
     ''ABCDEFGHIJKLMNOPQRSTUVWXYZabcdefghijklmnopqrstuvwxyz0123456789+/'' ! (n mod 64)"

fun base64_EncodeToString :: "byte list \<Rightarrow> string" where
  "base64_EncodeToString [] = []"
| "base64_EncodeToString [a] =
     [b64digit (unat a div 4), b64digit (unat a mod 4 * 16), CHR ''='', CHR ''='']"
| "base64_EncodeToString [a, b] =
     [b64digit (unat a div 4), b64digit (unat a mod 4 * 16 + unat b div 16),
      b64digit (unat b mod 16 * 4), CHR ''='']"
| "base64_EncodeToString (a # b # c # rest) =
     [b64digit (unat a div 4), b64digit (unat a mod 4 * 16 + unat b div 16),
      b64digit (unat b mod 16 * 4 + unat c div 64), b64digit (unat c)]
     @ base64_EncodeToString rest"

text \<open>
  \<open>math/big\<close>: an \<open>*big.Int\<close> of a parsed certificate is a (non-nil) unbounded integer.
  \<open>Bytes()\<close> is the big-endian magnitude without leading zeros, \<open>BitLen()\<close> the length of
  the magnitude in bits, \<open>String()\<close> the decimal rendering.  \<open>MarshalText()\<close> returns the
  same text and a nil error.
\<close>

fun nat_bytes :: "nat \<Rightarrow> byte list" where
  "nat_bytes n = (if n = 0 then [] else nat_bytes (n div 256) @ [of_nat (n mod 256)])"

definition Int_Bytes :: "int \<Rightarrow> byte list" where
  "Int_Bytes x = nat_bytes (nat \<bar>x\<bar>)"

fun nat_bitlen :: "nat \<Rightarrow> nat" where
  "nat_bitlen n = (if n = 0 then 0 else Suc (nat_bitlen (n div 2)))"

definition Int_BitLen :: "int \<Rightarrow> int" where
  "Int_BitLen x = int (nat_bitlen (nat \<bar>x\<bar>))"

fun nat_decimal :: "nat \<Rightarrow> string" where
  "nat_decimal n =
     (if n < 10 then [char_of (48 + n)] else nat_decimal (n div 10) @ [char_of (48 + n mod 10)])"

text \<open>\<open>strconv.Itoa\<close> and \<open>(*big.Int).String\<close>: decimal with a leading minus sign.\<close>

definition Itoa :: "int \<Rightarrow> string" where
  "Itoa x = (if x < 0 then ''-'' @ nat_decimal (nat (- x)) else nat_decimal (nat x))"

datatype go_error = go_error string

definition Int_MarshalText :: "int \<Rightarrow> string \<times> go_error option" where
  "Int_MarshalText x = (Itoa x, None)"

text \<open>\<open>asn1.ObjectIdentifier.String\<close>: the arcs in decimal, joined by dots.\<close>

type_synonym ObjectIdentifier = "int list"

definition OID_String :: "ObjectIdentifier \<Rightarrow> string" where
  "OID_String oid = Join (map Itoa oid) ''.''"

subsection \<open>crypto/md5, crypto/sha1, crypto/sha256\<close>

text \<open>
  The three digests as the standard library computes them (RFC 1321, FIPS 180-4) over
  32-bit words.  A message is padded with \<open>0x80\<close>, zeros up to 56 modulo 64 bytes and
  its length in bits as a 64-bit integer, then consumed in blocks of sixteen words.
  Writing to a \<open>hash.Hash\<close> in pieces hashes the concatenation of the pieces.
\<close>

definition be32 :: "byte list \<Rightarrow> 32 word" where
  "be32 bs = foldl (\<lambda>acc b. push_bit 8 acc OR ucast b) 0 (take 4 bs)"

definition le32 :: "byte list \<Rightarrow> 32 word" where
  "le32 bs = be32 (rev (take 4 bs))"

definition be32_bytes :: "32 word \<Rightarrow> byte list" where
  "be32_bytes w = [ucast (drop_bit 24 w), ucast (drop_bit 16 w), ucast (drop_bit 8 w), ucast w]"

definition le32_bytes :: "32 word \<Rightarrow> byte list" where
  "le32_bytes w = rev (be32_bytes w)"

definition be64_bytes :: "64 word \<Rightarrow> byte list" where
  "be64_bytes w = map (\<lambda>i. ucast (drop_bit (8 * (7 - i)) w)) [0..<8]"

definition le64_bytes :: "64 word \<Rightarrow> byte list" where
  "le64_bytes w = rev (be64_bytes w)"

fun blocks :: "nat \<Rightarrow> nat \<Rightarrow> 'a list \<Rightarrow> 'a list list" where
  "blocks sz 0 bs = []"
| "blocks sz (Suc n) bs = take sz bs # blocks sz n (drop sz bs)"

definition pad_zeros :: "nat \<Rightarrow> nat" where
  "pad_zeros n = (119 - n mod 64) mod 64"

definition md_pad :: "(64 word \<Rightarrow> byte list) \<Rightarrow> byte list \<Rightarrow> byte list" where
  "md_pad enc msg =
     msg @ [0x80] @ replicate (pad_zeros (length msg)) 0 @ enc (word_of_nat (8 * length msg))"

definition md_blocks ::
  "(64 word \<Rightarrow> byte list) \<Rightarrow> (byte list \<Rightarrow> 32 word) \<Rightarrow> byte list \<Rightarrow> 32 word list list" where
  "md_blocks enc dec msg =
     (let p = md_pad enc msg
      in map (\<lambda>blk. map dec (blocks 4 16 blk)) (blocks 64 (length p div 64) p))"

definition Ch :: "32 word \<Rightarrow> 32 word \<Rightarrow> 32 word \<Rightarrow> 32 word" where
  "Ch x y z = (x AND y) XOR (NOT x AND z)"

definition Maj :: "32 word \<Rightarrow> 32 word \<Rightarrow> 32 word \<Rightarrow> 32 word" where
  "Maj x y z = (x AND y) XOR (x AND z) XOR (y AND z)"

definition Parity :: "32 word \<Rightarrow> 32 word \<Rightarrow> 32 word \<Rightarrow> 32 word" where
  "Parity x y z = x XOR y XOR z"

definition K256 :: "32 word list" where
  "K256 = [
   0x428A2F98, 0x71374491, 0xB5C0FBCF, 0xE9B5DBA5, 0x3956C25B, 0x59F111F1, 0x923F82A4, 0xAB1C5ED5,
   0xD807AA98, 0x12835B01, 0x243185BE, 0x550C7DC3, 0x72BE5D74, 0x80DEB1FE, 0x9BDC06A7, 0xC19BF174,
   0xE49B69C1, 0xEFBE4786, 0x0FC19DC6, 0x240CA1CC, 0x2DE92C6F, 0x4A7484AA, 0x5CB0A9DC, 0x76F988DA,
   0x983E5152, 0xA831C66D, 0xB00327C8, 0xBF597FC7, 0xC6E00BF3, 0xD5A79147, 0x06CA6351, 0x14292967,
   0x27B70A85, 0x2E1B2138, 0x4D2C6DFC, 0x53380D13, 0x650A7354, 0x766A0ABB, 0x81C2C92E, 0x92722C85,
   0xA2BFE8A1, 0xA81A664B, 0xC24B8B70, 0xC76C51A3, 0xD192E819, 0xD6990624, 0xF40E3585, 0x106AA070,
   0x19A4C116, 0x1E376C08, 0x2748774C, 0x34B0BCB5, 0x391C0CB3, 0x4ED8AA4A, 0x5B9CCA4F, 0x682E6FF3,
   0x748F82EE, 0x78A5636F, 0x84C87814, 0x8CC70208, 0x90BEFFFA, 0xA4506CEB, 0xBEF9A3F7, 0xC67178F2]"

fun sha256_schedule :: "nat \<Rightarrow> 32 word list \<Rightarrow> 32 word list" where
  "sha256_schedule 0 ws = ws"
| "sha256_schedule (Suc n) ws =
     (let t = length ws;
          s0 = word_rotr 7 (ws ! (t - 15)) XOR word_rotr 18 (ws ! (t - 15))
               XOR drop_bit 3 (ws ! (t - 15));
          s1 = word_rotr 17 (ws ! (t - 2)) XOR word_rotr 19 (ws ! (t - 2))
               XOR drop_bit 10 (ws ! (t - 2))
      in sha256_schedule n (ws @ [ws ! (t - 16) + s0 + ws ! (t - 7) + s1]))"

fun sha256_round :: "32 word list \<Rightarrow> 32 word \<times> 32 word \<Rightarrow> 32 word list" where
  "sha256_round [a, b, c, d, e, f, g, h] (k, w) =
     (let t1 = h + (word_rotr 6 e XOR word_rotr 11 e XOR word_rotr 25 e) + Ch e f g + k + w;
          t2 = (word_rotr 2 a XOR word_rotr 13 a XOR word_rotr 22 a) + Maj a b c
      in [t1 + t2, a, b, c, d + t1, e, f, g])"
| "sha256_round st _ = st"

definition sha256_block :: "32 word list \<Rightarrow> 32 word list \<Rightarrow> 32 word list" where
  "sha256_block st m = map2 (+) st (foldl sha256_round st (zip K256 (sha256_schedule 48 m)))"

definition sha256_init :: "32 word list" where
  "sha256_init = [0x6A09E667, 0xBB67AE85, 0x3C6EF372, 0xA54FF53A,
                  0x510E527F, 0x9B05688C, 0x1F83D9AB, 0x5BE0CD19]"

definition sha256_Sum256 :: "byte list \<Rightarrow> byte list" where
  "sha256_Sum256 msg =
     concat (map be32_bytes (foldl sha256_block sha256_init (md_blocks be64_bytes be32 msg)))"

fun sha1_schedule :: "nat \<Rightarrow> 32 word list \<Rightarrow> 32 word list" where
  "sha1_schedule 0 ws = ws"
| "sha1_schedule (Suc n) ws =
     (let t = length ws
      in sha1_schedule n
           (ws @ [word_rotl 1 (ws ! (t - 3) XOR ws ! (t - 8) XOR ws ! (t - 14) XOR ws ! (t - 16))]))"

fun sha1_round :: "32 word list \<Rightarrow> nat \<times> 32 word \<Rightarrow> 32 word list" where
  "sha1_round [a, b, c, d, e] (t, w) =
     (let f = (if t < 20 then Ch b c d else if t < 40 then Parity b c d
               else if t < 60 then Maj b c d else Parity b c d);
          k = (if t < 20 then 0x5A827999 else if t < 40 then 0x6ED9EBA1
               else if t < 60 then 0x8F1BBCDC else 0xCA62C1D6)
      in [word_rotl 5 a + f + e + k + w, a, word_rotl 30 b, c, d])"
| "sha1_round st _ = st"

definition sha1_block :: "32 word list \<Rightarrow> 32 word list \<Rightarrow> 32 word list" where
  "sha1_block st m = map2 (+) st (foldl sha1_round st (zip [0..<80] (sha1_schedule 64 m)))"

definition sha1_init :: "32 word list" where
  "sha1_init = [0x67452301, 0xEFCDAB89, 0x98BADCFE, 0x10325476, 0xC3D2E1F0]"

definition sha1_Sum :: "byte list \<Rightarrow> byte list" where
  "sha1_Sum msg =
     concat (map be32_bytes (foldl sha1_block sha1_init (md_blocks be64_bytes be32 msg)))"

definition md5_T :: "32 word list" where
  "md5_T = [
   0xD76AA478, 0xE8C7B756, 0x242070DB, 0xC1BDCEEE, 0xF57C0FAF, 0x4787C62A, 0xA8304613, 0xFD469501,
   0x698098D8, 0x8B44F7AF, 0xFFFF5BB1, 0x895CD7BE, 0x6B901122, 0xFD987193, 0xA679438E, 0x49B40821,
   0xF61E2562, 0xC040B340, 0x265E5A51, 0xE9B6C7AA, 0xD62F105D, 0x02441453, 0xD8A1E681, 0xE7D3FBC8,
   0x21E1CDE6, 0xC33707D6, 0xF4D50D87, 0x455A14ED, 0xA9E3E905, 0xFCEFA3F8, 0x676F02D9, 0x8D2A4C8A,
   0xFFFA3942, 0x8771F681, 0x6D9D6122, 0xFDE5380C, 0xA4BEEA44, 0x4BDECFA9, 0xF6BB4B60, 0xBEBFBC70,
   0x289B7EC6, 0xEAA127FA, 0xD4EF3085, 0x04881D05, 0xD9D4D039, 0xE6DB99E5, 0x1FA27CF8, 0xC4AC5665,
   0xF4292244, 0x432AFF97, 0xAB9423A7, 0xFC93A039, 0x655B59C3, 0x8F0CCC92, 0xFFEFF47D, 0x85845DD1,
   0x6FA87E4F, 0xFE2CE6E0, 0xA3014314, 0x4E0811A1, 0xF7537E82, 0xBD3AF235, 0x2AD7D2BB, 0xEB86D391]"

definition md5_shift :: "nat list" where
  "md5_shift = concat (map (\<lambda>r. concat (replicate 4 r))
                  [[7, 12, 17, 22], [5, 9, 14, 20], [4, 11, 16, 23], [6, 10, 15, 21]])"

fun md5_round :: "32 word list \<Rightarrow> 32 word list \<Rightarrow> nat \<Rightarrow> 32 word list" where
  "md5_round m [a, b, c, d] i =
     (let f = (if i < 16 then (b AND c) OR (NOT b AND d)
               else if i < 32 then (d AND b) OR (NOT d AND c)
               else if i < 48 then b XOR c XOR d
               else c XOR (b OR NOT d));
          g = (if i < 16 then i else if i < 32 then (5 * i + 1) mod 16
               else if i < 48 then (3 * i + 5) mod 16 else (7 * i) mod 16)
      in [d, b + word_rotl (md5_shift ! i) (f + a + md5_T ! i + m ! g), b, c])"
| "md5_round m st _ = st"

definition md5_block :: "32 word list \<Rightarrow> 32 word list \<Rightarrow> 32 word list" where
  "md5_block st m = map2 (+) st (foldl (md5_round m) st [0..<64])"

definition md5_init :: "32 word list" where
  "md5_init = [0x67452301, 0xEFCDAB89, 0x98BADCFE, 0x10325476]"

definition md5_Sum :: "byte list \<Rightarrow> byte list" where
  "md5_Sum msg =
     concat (map le32_bytes (foldl md5_block md5_init (md_blocks le64_bytes le32 msg)))"

section \<open>Data model\<close>

subsection \<open>The parsed certificate (crypto/x509, crypto/x509/pkix)\<close>

text \<open>
  The fields of \<open>x509.Certificate\<close> and \<open>pkix.Name\<close> that the package reads.  The
  dynamic type of \<open>cert.PublicKey\<close> is one of the three key types the package switches
  on, or anything else (including nil).  The big integers and the curve of a parsed key,
  like the serial number of a parsed certificate, are not nil.
\<close>

record pkix_Name =
  pkix_Country :: "string slice"
  pkix_Organization :: "string slice"
  pkix_OrganizationalUnit :: "string slice"
  pkix_CommonName :: string

record CurveParams =
  curve_BitSize :: int
  curve_Name :: string

datatype PublicKey =
    rsa_PublicKey int int
  | dsa_PublicKey int int int int
  | ecdsa_PublicKey CurveParams int int
  | other_PublicKey

text \<open>
  \<open>rsa_PublicKey N E\<close>, \<open>dsa_PublicKey P Q G Y\<close> (the parameters, then the key) and
  \<open>ecdsa_PublicKey Curve X Y\<close>.
\<close>

record x509_Certificate =
  x509_Raw :: "byte list"
  x509_RawSubjectPublicKeyInfo :: "byte list"
  x509_RawSubject :: "byte list"
  x509_SignatureAlgorithm :: int
  x509_PublicKeyAlgorithm :: int
  x509_PublicKey :: PublicKey
  x509_Version :: int
  x509_SerialNumber :: int
  x509_Issuer :: pkix_Name
  x509_Subject :: pkix_Name
  x509_NotBefore :: Time
  x509_NotAfter :: Time
  x509_KeyUsage :: int
  x509_ExtKeyUsage :: "int slice"
  x509_UnknownExtKeyUsage :: "ObjectIdentifier slice"
  x509_BasicConstraintsValid :: bool
  x509_IsCA :: bool
  x509_SubjectKeyId :: "byte list"
  x509_AuthorityKeyId :: "byte list"
  x509_DNSNames :: "string slice"
  x509_PermittedDNSDomains :: "string slice"
  x509_CRLDistributionPoints :: "string slice"
  x509_PolicyIdentifiers :: "ObjectIdentifier slice"

text \<open>The bits of \<open>x509.KeyUsage\<close> (\<open>1 << iota\<close>).\<close>

definition KeyUsageDigitalSignature :: int where "KeyUsageDigitalSignature = 1"
definition KeyUsageContentCommitment :: int where "KeyUsageContentCommitment = 2"
definition KeyUsageKeyEncipherment :: int where "KeyUsageKeyEncipherment = 4"
definition KeyUsageDataEncipherment :: int where "KeyUsageDataEncipherment = 8"
definition KeyUsageKeyAgreement :: int where "KeyUsageKeyAgreement = 16"
definition KeyUsageCertSign :: int where "KeyUsageCertSign = 32"
definition KeyUsageCRLSign :: int where "KeyUsageCRLSign = 64"
definition KeyUsageEncipherOnly :: int where "KeyUsageEncipherOnly = 128"
definition KeyUsageDecipherOnly :: int where "KeyUsageDecipherOnly = 256"

subsection \<open>The stored certificate\<close>

definition Ubuntu_TS_name :: string where "Ubuntu_TS_name = ''Ubuntu''"
definition Mozilla_TS_name :: string where "Mozilla_TS_name = ''Mozilla''"
definition Microsoft_TS_name :: string where "Microsoft_TS_name = ''Microsoft''"
definition Apple_TS_name :: string where "Apple_TS_name = ''Apple''"
definition Android_TS_name :: string where "Android_TS_name = ''Android''"

record Hashes =
  MD5 :: string
  SHA1 :: string
  SHA256 :: string
  SHA256SubjectSPKI_hash :: string
  PKPSHA256 :: string

record Validity =
  NotBefore :: Time
  NotAfter :: Time

record Subject =
  Subject_ID :: "64 word"
  Country :: "string slice"
  Organisation :: "string slice"
  OrgUnit :: "string slice"
  CommonName :: string

record SubjectPublicKeyInfo =
  Alg :: string
  Size_f :: float64
  Exponent :: float64
  X_f :: string
  Y_f :: string
  P_f :: string
  Q_f :: string
  G_f :: string
  Curve :: string

record Extensions =
  AuthorityKeyId :: string
  SubjectKeyId :: string
  KeyUsage :: "string slice"
  ExtendedKeyUsage :: "string slice"
  SubjectAlternativeName :: "string slice"
  CRLDistributionPoints :: "string slice"
  PolicyIdentifiers :: "string slice"
  IsNameConstrained :: bool
  PermittedNames :: "string slice"

record ValidationInfo =
  IsValid :: bool
  ValidationError :: string

text \<open>
  The records keep the field names of the Go structs; a suffix is added where a name
  would clash with another constant or with a variable name (\<open>X_f\<close>, \<open>Size_f\<close>,
  \<open>Subject_ID\<close>, \<open>SHA256SubjectSPKI_hash\<close>), and the three name tables are called
  \<open>SignatureAlgorithm_names\<close>, \<open>ExtKeyUsage_names\<close> and \<open>PublicKeyAlgorithm_names\<close>.
  \<open>map[string]ValidationInfo\<close> is a partial map.  Reading a nil map behaves like reading
  an empty one, and the package only writes to maps it has just made.
\<close>

record Certificate =
  ID :: "64 word"
  Serial :: string
  ScanTarget :: string
  IPs :: "string slice"
  Version :: int
  SignatureAlgorithm :: string
  Issuer :: Subject
  Validity :: Validity
  Subject :: Subject
  Key :: SubjectPublicKeyInfo
  X509v3Extensions :: Extensions
  X509v3BasicConstraints :: string
  CA :: bool
  Analysis :: "any option"
  ParentSignature :: "string slice"
  ValidationInfo :: "string \<rightharpoonup> ValidationInfo"
  FirstSeenTimestamp :: Time
  LastSeenTimestamp :: Time
  Hashes :: Hashes
  Raw :: string
  Anomalies :: string

text \<open>The zero values \<open>Subject{}\<close>, \<open>SubjectPublicKeyInfo{}\<close>, \<open>Certificate{}\<close>, ...\<close>

definition Subject_zero :: Subject where
  "Subject_zero = \<lparr>Subject_ID = 0, Country = NilSlice, Organisation = NilSlice,
                    OrgUnit = NilSlice, CommonName = ''''\<rparr>"

definition SubjectPublicKeyInfo_zero :: SubjectPublicKeyInfo where
  "SubjectPublicKeyInfo_zero =
     \<lparr>Alg = '''', Size_f = float64 0, Exponent = float64 0, X_f = '''', Y_f = '''',
      P_f = '''', Q_f = '''', G_f = '''', Curve = ''''\<rparr>"

definition Extensions_zero :: Extensions where
  "Extensions_zero =
     \<lparr>AuthorityKeyId = '''', SubjectKeyId = '''', KeyUsage = NilSlice,
      ExtendedKeyUsage = NilSlice, SubjectAlternativeName = NilSlice,
      CRLDistributionPoints = NilSlice, PolicyIdentifiers = NilSlice,
      IsNameConstrained = False, PermittedNames = NilSlice\<rparr>"

definition Hashes_zero :: Hashes where
  "Hashes_zero = \<lparr>MD5 = '''', SHA1 = '''', SHA256 = '''', SHA256SubjectSPKI_hash = '''',
                   PKPSHA256 = ''''\<rparr>"

definition Certificate_zero :: Certificate where
  "Certificate_zero =
     \<lparr>ID = 0, Serial = '''', ScanTarget = '''', IPs = NilSlice, Version = 0,
      SignatureAlgorithm = '''', Issuer = Subject_zero,
      Validity = \<lparr>NotBefore = Time_zero, NotAfter = Time_zero\<rparr>,
      Subject = Subject_zero, Key = SubjectPublicKeyInfo_zero,
      X509v3Extensions = Extensions_zero, X509v3BasicConstraints = '''', CA = False,
      Analysis = None, ParentSignature = NilSlice, ValidationInfo = Map.empty,
      FirstSeenTimestamp = Time_zero, LastSeenTimestamp = Time_zero,
      Hashes = Hashes_zero, Raw = '''', Anomalies = ''''\<rparr>"

subsection \<open>The name tables\<close>

definition SignatureAlgorithm_names :: "string list" where
  "SignatureAlgorithm_names =
     [''UnknownSignatureAlgorithm'', ''MD2WithRSA'', ''MD5WithRSA'', ''SHA1WithRSA'',
      ''SHA256WithRSA'', ''SHA384WithRSA'', ''SHA512WithRSA'', ''DSAWithSHA1'',
      ''DSAWithSHA256'', ''ECDSAWithSHA1'', ''ECDSAWithSHA256'', ''ECDSAWithSHA384'',
      ''ECDSAWithSHA512'']"

definition ExtKeyUsage_names :: "string list" where
  "ExtKeyUsage_names =
     [''ExtKeyUsageAny'', ''ExtKeyUsageServerAuth'', ''ExtKeyUsageClientAuth'',
      ''ExtKeyUsageCodeSigning'', ''ExtKeyUsageEmailProtection'',
      ''ExtKeyUsageIPSECEndSystem'', ''ExtKeyUsageIPSECTunnel'', ''ExtKeyUsageIPSECUser'',
      ''ExtKeyUsageTimeStamping'', ''ExtKeyUsageOCSPSigning'',
      ''ExtKeyUsageMicrosoftServerGatedCrypto'', ''ExtKeyUsageNetscapeServerGatedCrypto'']"

definition PublicKeyAlgorithm_names :: "string list" where
  "PublicKeyAlgorithm_names = [''UnknownPublicKeyAlgorithm'', ''RSA'', ''DSA'', ''ECDSA'']"

section \<open>The functions of package certificate\<close>

subsection \<open>Fingerprints\<close>

definition SHA256SubjectSPKI :: "x509_Certificate \<Rightarrow> string" where
  "SHA256SubjectSPKI cert =
     (let h = [];
          h = h @ x509_RawSubject cert;
          h = h @ x509_RawSubjectPublicKeyInfo cert
      in Sprintf_X (sha256_Sum256 h))"

text \<open>
  \<open>x509.MarshalPKIXPublicKey\<close> is a parameter: \<open>marshal pub\<close> is the DER it returns for
  \<open>pub\<close> (no bytes when it fails; the error is discarded by the caller).  It is only
  called in the three cases of the type switch; with any other key nothing is written
  to the hash before \<open>h.Sum(nil)\<close>.
\<close>

definition PKPSHA256Hash :: "(PublicKey \<Rightarrow> byte list) \<Rightarrow> x509_Certificate \<Rightarrow> string" where
  "PKPSHA256Hash marshal cert =
     (let h = [];
          h = (case x509_PublicKey cert of
                 rsa_PublicKey n e \<Rightarrow> h @ marshal (rsa_PublicKey n e)
               | dsa_PublicKey p q g y \<Rightarrow> h @ marshal (dsa_PublicKey p q g y)
               | ecdsa_PublicKey curve x y \<Rightarrow> h @ marshal (ecdsa_PublicKey curve x y)
               | other_PublicKey \<Rightarrow> h)
      in base64_EncodeToString (sha256_Sum256 h))"

definition SHA256Hash :: "byte list \<Rightarrow> string" where
  "SHA256Hash data = Sprintf_X (sha256_Sum256 data)"

definition MD5Hash :: "byte list \<Rightarrow> string" where
  "MD5Hash data = Sprintf_X (md5_Sum data)"

definition SHA1Hash :: "byte list \<Rightarrow> string" where
  "SHA1Hash data = Sprintf_X (sha1_Sum data)"

subsection \<open>Validation verdicts\<close>

text \<open>
  The two-valued map read \<open>v, ok := m[k]\<close>: the zero value and \<open>false\<close> for a missing key.
\<close>

definition ValidationInfo_zero :: ValidationInfo where
  "ValidationInfo_zero = \<lparr>IsValid = False, ValidationError = ''''\<rparr>"

definition lookup_ok :: "(string \<rightharpoonup> ValidationInfo) \<Rightarrow> string \<Rightarrow> ValidationInfo \<times> bool" where
  "lookup_ok m k = (case m k of None \<Rightarrow> (ValidationInfo_zero, False) | Some v \<Rightarrow> (v, True))"

definition GetBooleanValidity :: "Certificate \<Rightarrow> bool \<times> bool \<times> bool \<times> bool \<times> bool" where
  "GetBooleanValidity c =
     (let (valInfo, ok) = lookup_ok (ValidationInfo c) Ubuntu_TS_name;
          trusted_ubuntu = (if \<not> ok then False else IsValid valInfo);
          (valInfo, ok) = lookup_ok (ValidationInfo c) Mozilla_TS_name;
          trusted_mozilla = (if \<not> ok then False else IsValid valInfo);
          (valInfo, ok) = lookup_ok (ValidationInfo c) Microsoft_TS_name;
          trusted_microsoft = (if \<not> ok then False else IsValid valInfo);
          (valInfo, ok) = lookup_ok (ValidationInfo c) Apple_TS_name;
          trusted_apple = (if \<not> ok then False else IsValid valInfo);
          (valInfo, ok) = lookup_ok (ValidationInfo c) Android_TS_name;
          trusted_android = (if \<not> ok then False else IsValid valInfo)
      in (trusted_ubuntu, trusted_mozilla, trusted_microsoft, trusted_apple, trusted_android))"

definition GetValidityMap ::
  "bool \<Rightarrow> bool \<Rightarrow> bool \<Rightarrow> bool \<Rightarrow> bool \<Rightarrow> (string \<rightharpoonup> ValidationInfo)" where
  "GetValidityMap trusted_ubuntu trusted_mozilla trusted_microsoft trusted_apple trusted_android =
     (let vUbuntu = \<lparr>IsValid = trusted_ubuntu, ValidationError = ''''\<rparr>;
          vMozilla = \<lparr>IsValid = trusted_mozilla, ValidationError = ''''\<rparr>;
          vMicrosoft = \<lparr>IsValid = trusted_microsoft, ValidationError = ''''\<rparr>;
          vApple = \<lparr>IsValid = trusted_apple, ValidationError = ''''\<rparr>;
          vAndroid = \<lparr>IsValid = trusted_android, ValidationError = ''''\<rparr>;
          m = Map.empty;
          m = m(Ubuntu_TS_name \<mapsto> vUbuntu);
          m = m(Mozilla_TS_name \<mapsto> vMozilla);
          m = m(Microsoft_TS_name \<mapsto> vMicrosoft);
          m = m(Apple_TS_name \<mapsto> vApple);
          m = m(Android_TS_name \<mapsto> vAndroid)
      in m)"

subsection \<open>Extensions\<close>

fun getExtKeyUsages_known :: "int list \<Rightarrow> string slice \<Rightarrow> panic + string slice" where
  "getExtKeyUsages_known [] usage = Inr usage"
| "getExtKeyUsages_known (eku # ekus) usage =
     (case index_array ExtKeyUsage_names eku of
        Inl p \<Rightarrow> Inl p
      | Inr name \<Rightarrow> getExtKeyUsages_known ekus (go_append usage [name]))"

definition getExtKeyUsages :: "x509_Certificate \<Rightarrow> panic + string slice" where
  "getExtKeyUsages cert =
     (case getExtKeyUsages_known (elems (x509_ExtKeyUsage cert)) make0 of
        Inl p \<Rightarrow> Inl p
      | Inr usage \<Rightarrow>
          Inr (foldl (\<lambda>usage unknownEku. go_append usage [OID_String unknownEku])
                 usage (elems (x509_UnknownExtKeyUsage cert))))"

definition getPolicyIdentifiers :: "x509_Certificate \<Rightarrow> string slice" where
  "getPolicyIdentifiers cert =
     foldl (\<lambda>identifiers pi. go_append identifiers [OID_String pi])
       make0 (elems (x509_PolicyIdentifiers cert))"

definition getKeyUsages :: "x509_Certificate \<Rightarrow> string slice" where
  "getKeyUsages cert =
     (let usage = make0;
          keyUsage = x509_KeyUsage cert;
          usage = (if keyUsage AND KeyUsageDigitalSignature \<noteq> 0
                   then go_append usage [''Digital Signature''] else usage);
          usage = (if keyUsage AND KeyUsageContentCommitment \<noteq> 0
                   then go_append usage [''Non Repudiation''] else usage);
          usage = (if keyUsage AND KeyUsageKeyEncipherment \<noteq> 0
                   then go_append usage [''Key Encipherment''] else usage);
          usage = (if keyUsage AND KeyUsageDataEncipherment \<noteq> 0
                   then go_append usage [''Data Encipherment''] else usage);
          usage = (if keyUsage AND KeyUsageKeyAgreement \<noteq> 0
                   then go_append usage [''Key Agreement''] else usage);
          usage = (if keyUsage AND KeyUsageCertSign \<noteq> 0
                   then go_append usage [''Certificate Sign''] else usage);
          usage = (if keyUsage AND KeyUsageCRLSign \<noteq> 0
                   then go_append usage [''CRL Sign''] else usage);
          usage = (if keyUsage AND KeyUsageEncipherOnly \<noteq> 0
                   then go_append usage [''Encipher Only''] else usage);
          usage = (if keyUsage AND KeyUsageDecipherOnly \<noteq> 0
                   then go_append usage [''Decipher Only''] else usage)
      in usage)"

text \<open>
  The fields of the composite literal are evaluated in the order they are written, so
  the only panic of \<open>getCertExtensions\<close> is the one of \<open>getExtKeyUsages\<close>.
\<close>

definition getCertExtensions :: "x509_Certificate \<Rightarrow> panic + Extensions" where
  "getCertExtensions cert =
     (let san = make0;
          san = go_append san (elems (x509_DNSNames cert));
          crld = make0;
          crld = go_append crld (elems (x509_CRLDistributionPoints cert));
          pnames = make0;
          pnames = go_append pnames (elems (x509_PermittedDNSDomains cert))
      in case getExtKeyUsages cert of
           Inl p \<Rightarrow> Inl p
         | Inr extKeyUsages \<Rightarrow>
             (let ext = \<lparr>AuthorityKeyId = base64_EncodeToString (x509_AuthorityKeyId cert),
                         SubjectKeyId = base64_EncodeToString (x509_SubjectKeyId cert),
                         KeyUsage = getKeyUsages cert,
                         ExtendedKeyUsage = extKeyUsages,
                         SubjectAlternativeName = san,
                         CRLDistributionPoints = crld,
                         PolicyIdentifiers = getPolicyIdentifiers cert,
                         IsNameConstrained = False,
                         PermittedNames = pnames\<rparr>;
                  ext = (if len (PermittedNames ext) > 0
                         then ext\<lparr>IsNameConstrained := True\<rparr> else ext)
              in Inr ext))"

subsection \<open>Public key\<close>

definition getPublicKeyInfo ::
  "x509_Certificate \<Rightarrow> panic + SubjectPublicKeyInfo \<times> go_error option" where
  "getPublicKeyInfo cert =
     (case index_array PublicKeyAlgorithm_names (x509_PublicKeyAlgorithm cert) of
        Inl p \<Rightarrow> Inl p
      | Inr alg \<Rightarrow>
          (let pubInfo = SubjectPublicKeyInfo_zero\<lparr>Alg := alg\<rparr>
           in Inr
             (case x509_PublicKey cert of
                rsa_PublicKey n e \<Rightarrow>
                  (let pubInfo = pubInfo\<lparr>Size_f := float64 (Int_BitLen n)\<rparr>;
                       pubInfo = pubInfo\<lparr>Exponent := float64 e\<rparr>
                   in (pubInfo, None))
              | dsa_PublicKey p q g y \<Rightarrow>
                  (let pubInfo = pubInfo\<lparr>Size_f := float64 (Int_BitLen y)\<rparr>;
                       (textInt, err) = Int_MarshalText g
                   in if err = None then
                        (let pubInfo = pubInfo\<lparr>G_f := textInt\<rparr>;
                             (textInt, err) = Int_MarshalText p
                         in if err = None then
                              (let pubInfo = pubInfo\<lparr>P_f := textInt\<rparr>;
                                   (textInt, err) = Int_MarshalText q
                               in if err = None then
                                    (let pubInfo = pubInfo\<lparr>Q_f := textInt\<rparr>;
                                         (textInt, err) = Int_MarshalText y
                                     in if err = None then
                                          (let pubInfo = pubInfo\<lparr>Y_f := textInt\<rparr>
                                           in (pubInfo, None))
                                        else (pubInfo, err))
                                  else (pubInfo, err))
                            else (pubInfo, err))
                      else (pubInfo, err))
              | ecdsa_PublicKey curve x y \<Rightarrow>
                  (let pubInfo = pubInfo\<lparr>Size_f := float64 (curve_BitSize curve)\<rparr>;
                       pubInfo = pubInfo\<lparr>Curve := curve_Name curve\<rparr>;
                       pubInfo = pubInfo\<lparr>Y_f := Itoa y\<rparr>;
                       pubInfo = pubInfo\<lparr>X_f := Itoa x\<rparr>
                   in (pubInfo, None))
              | other_PublicKey \<Rightarrow> (pubInfo, None))))"

subsection \<open>CertToStored\<close>

text \<open>
  \<open>CertToStored marshal now cert parentSignature domain ip TSName valInfo\<close>: \<open>now\<close> is
  the value of \<open>time.Now()\<close>, \<open>cert\<close> the parsed certificate behind the pointer and
  \<open>valInfo\<close> the pointer argument (\<open>None\<close> when nil), dereferenced where the verdict is
  stored.  The statements follow the source in order, so the panic reported is the first
  one met.  The log line written when \<open>getPublicKeyInfo\<close> returns an error is not part of
  the result.
\<close>

definition CertToStored ::
  "(PublicKey \<Rightarrow> byte list) \<Rightarrow> Time \<Rightarrow> x509_Certificate \<Rightarrow> string \<Rightarrow> string \<Rightarrow> string
     \<Rightarrow> string \<Rightarrow> ValidationInfo option \<Rightarrow> panic + Certificate" where
  "CertToStored marshal now cert parentSignature domain ip TSName valInfo =
     (let stored = Certificate_zero;
          stored = stored\<lparr>ParentSignature := make0\<rparr>;
          stored = stored\<lparr>IPs := make0\<rparr>;
          stored = stored\<lparr>Version := x509_Version cert\<rparr>;
          stored = stored\<lparr>Serial :=
                     ToUpper (hex_EncodeToString (Int_Bytes (x509_SerialNumber cert)))\<rparr>
      in case index_array SignatureAlgorithm_names (x509_SignatureAlgorithm cert) of
           Inl p \<Rightarrow> Inl p
         | Inr sigAlg \<Rightarrow>
      (let stored = stored\<lparr>SignatureAlgorithm := sigAlg\<rparr>
       in case getPublicKeyInfo cert of
            Inl p \<Rightarrow> Inl p
          | Inr (key, err) \<Rightarrow>
      (let stored = stored\<lparr>Key := key\<rparr>;
           stored = stored\<lparr>Issuer := (Issuer stored)\<lparr>Country := pkix_Country (x509_Issuer cert)\<rparr>\<rparr>;
           stored = stored\<lparr>Issuer :=
                      (Issuer stored)\<lparr>Organisation := pkix_Organization (x509_Issuer cert)\<rparr>\<rparr>;
           stored = stored\<lparr>Issuer :=
                      (Issuer stored)\<lparr>OrgUnit := pkix_OrganizationalUnit (x509_Issuer cert)\<rparr>\<rparr>;
           stored = stored\<lparr>Issuer :=
                      (Issuer stored)\<lparr>CommonName := pkix_CommonName (x509_Issuer cert)\<rparr>\<rparr>;
           stored = stored\<lparr>Subject :=
                      (Subject stored)\<lparr>Country := pkix_Country (x509_Subject cert)\<rparr>\<rparr>;
           stored = stored\<lparr>Subject :=
                      (Subject stored)\<lparr>Organisation := pkix_Organization (x509_Subject cert)\<rparr>\<rparr>;
           stored = stored\<lparr>Subject :=
                      (Subject stored)\<lparr>OrgUnit := pkix_OrganizationalUnit (x509_Subject cert)\<rparr>\<rparr>;
           stored = stored\<lparr>Subject :=
                      (Subject stored)\<lparr>CommonName := pkix_CommonName (x509_Subject cert)\<rparr>\<rparr>;
           stored = stored\<lparr>Validity :=
                      (Validity stored)\<lparr>NotBefore := UTC (x509_NotBefore cert)\<rparr>\<rparr>;
           stored = stored\<lparr>Validity :=
                      (Validity stored)\<lparr>NotAfter := UTC (x509_NotAfter cert)\<rparr>\<rparr>
       in case getCertExtensions cert of
            Inl p \<Rightarrow> Inl p
          | Inr ext \<Rightarrow>
      (let stored = stored\<lparr>X509v3Extensions := ext\<rparr>;
           stored =
             (if x509_Version cert < 3 then stored\<lparr>CA := x509_IsCA cert\<rparr>
              else if x509_BasicConstraintsValid cert
                   then (stored\<lparr>X509v3BasicConstraints := ''Critical''\<rparr>)\<lparr>CA := x509_IsCA cert\<rparr>
                   else (stored\<lparr>X509v3BasicConstraints := ''''\<rparr>)\<lparr>CA := False\<rparr>);
           t = UTC now;
           stored = stored\<lparr>FirstSeenTimestamp := t\<rparr>;
           stored = stored\<lparr>LastSeenTimestamp := t\<rparr>;
           stored = stored\<lparr>ParentSignature :=
                      go_append (ParentSignature stored) [parentSignature]\<rparr>;
           stored =
             (if \<not> x509_IsCA cert
              then (stored\<lparr>ScanTarget := domain\<rparr>)\<lparr>IPs := go_append (IPs stored) [ip]\<rparr>
              else stored);
           stored = stored\<lparr>ValidationInfo := Map.empty\<rparr>
       in case valInfo of
            None \<Rightarrow> Inl nil_pointer_dereference
          | Some v \<Rightarrow>
      (let stored = stored\<lparr>ValidationInfo := (ValidationInfo stored)(TSName \<mapsto> v)\<rparr>;
           stored = stored\<lparr>Hashes := (Hashes stored)\<lparr>MD5 := MD5Hash (x509_Raw cert)\<rparr>\<rparr>;
           stored = stored\<lparr>Hashes := (Hashes stored)\<lparr>SHA1 := SHA1Hash (x509_Raw cert)\<rparr>\<rparr>;
           stored = stored\<lparr>Hashes := (Hashes stored)\<lparr>SHA256 := SHA256Hash (x509_Raw cert)\<rparr>\<rparr>;
           stored = stored\<lparr>Hashes :=
                      (Hashes stored)\<lparr>SHA256SubjectSPKI_hash := SHA256SubjectSPKI cert\<rparr>\<rparr>;
           stored = stored\<lparr>Hashes :=
                      (Hashes stored)\<lparr>PKPSHA256 := PKPSHA256Hash marshal cert\<rparr>\<rparr>;
           stored = stored\<lparr>Raw := base64_EncodeToString (x509_Raw cert)\<rparr>
       in Inr stored)))))"

subsection \<open>Subject.String and IsSelfSigned\<close>


text \<open>
  One comparison loop of \<open>IsSelfSigned\<close>,
  \<open>for i := range a { if a[i] != b[i] { return false } }\<close>, entered at index \<open>i\<close> with
  the elements of \<open>a\<close> still to visit: \<open>Inr True\<close> when the loop returns (a pair
  differs), \<open>Inr False\<close> when it runs to its end, a panic when \<open>b[i]\<close> is out of range.
\<close>

fun range_differs :: "nat \<Rightarrow> string list \<Rightarrow> string slice \<Rightarrow> panic + bool" where
  "range_differs i [] b = Inr False"
| "range_differs i (x # xs) b =
     (case index_slice b i of
        Inl p \<Rightarrow> Inl p
      | Inr y \<Rightarrow> if x \<noteq> y then Inr True else range_differs (Suc i) xs b)"

definition IsSelfSigned :: "Certificate \<Rightarrow> panic + bool" where
  "IsSelfSigned c =
     (if CommonName (Subject c) \<noteq> CommonName (Issuer c) \<or>
         len (Organisation (Subject c)) \<noteq> len (Organisation (Issuer c)) \<or>
         len (OrgUnit (Subject c)) \<noteq> len (OrgUnit (Issuer c)) \<or>
         len (Country (Subject c)) \<noteq> len (Country (Issuer c))
      then Inr False
      else case range_differs 0 (elems (Organisation (Subject c))) (Organisation (Issuer c)) of
             Inl p \<Rightarrow> Inl p
           | Inr True \<Rightarrow> Inr False
           | Inr False \<Rightarrow>
        (case range_differs 0 (elems (OrgUnit (Subject c))) (OrgUnit (Issuer c)) of
             Inl p \<Rightarrow> Inl p
           | Inr True \<Rightarrow> Inr False
           | Inr False \<Rightarrow>
        (case range_differs 0 (elems (Country (Subject c))) (Country (Issuer c)) of
             Inl p \<Rightarrow> Inl p
           | Inr True \<Rightarrow> Inr False
           | Inr False \<Rightarrow> Inr True)))"

section \<open>Example inputs\<close>

text \<open>
  Concrete inputs at which the theorems below are instantiated: a leaf certificate
  without subject country, organisation or unit, the same certificate marked as a CA,
  with version number 4, and with a key of a type the package does not know; a
  marshalling function that fails on every key; a stored certificate whose subject and
  issuer agree.
\<close>

definition example_now :: Time where
  "example_now = \<lparr>instant = 1477872000000000000, location = ''Local''\<rparr>"

definition example_leaf :: x509_Certificate where
  "example_leaf =
     \<lparr>x509_Raw = [0x30, 0x82, 0x01, 0x0A],
      x509_RawSubjectPublicKeyInfo = [0x30, 0x0D],
      x509_RawSubject = [0x30, 0x1A],
      x509_SignatureAlgorithm = 4,
      x509_PublicKeyAlgorithm = 1,
      x509_PublicKey = rsa_PublicKey 3233 65537,
      x509_Version = 3,
      x509_SerialNumber = 0x0A1B2C,
      x509_Issuer = \<lparr>pkix_Country = Slice [''US''], pkix_Organization = Slice [''Example CA''],
                      pkix_OrganizationalUnit = NilSlice, pkix_CommonName = ''Example Issuing CA''\<rparr>,
      x509_Subject = \<lparr>pkix_Country = NilSlice, pkix_Organization = NilSlice,
                       pkix_OrganizationalUnit = NilSlice, pkix_CommonName = ''www.example.com''\<rparr>,
      x509_NotBefore = \<lparr>instant = 1470000000000000000, location = ''UTC''\<rparr>,
      x509_NotAfter = \<lparr>instant = 1480000000000000000, location = ''UTC''\<rparr>,
      x509_KeyUsage = 5,
      x509_ExtKeyUsage = Slice [1, 2],
      x509_UnknownExtKeyUsage = NilSlice,
      x509_BasicConstraintsValid = True,
      x509_IsCA = False,
      x509_SubjectKeyId = [0x01, 0x02],
      x509_AuthorityKeyId = [0x03, 0x04],
      x509_DNSNames = Slice [''www.example.com''],
      x509_PermittedDNSDomains = NilSlice,
      x509_CRLDistributionPoints = NilSlice,
      x509_PolicyIdentifiers = Slice [[2, 23, 140, 1, 2, 1]]\<rparr>"

definition example_ca :: x509_Certificate where
  "example_ca = example_leaf\<lparr>x509_IsCA := True\<rparr>"

definition example_v4 :: x509_Certificate where
  "example_v4 = example_leaf\<lparr>x509_Version := 4\<rparr>"

definition example_unknown_key :: x509_Certificate where
  "example_unknown_key =
     example_leaf\<lparr>x509_PublicKeyAlgorithm := 0, x509_PublicKey := other_PublicKey\<rparr>"

definition example_verdict :: ValidationInfo where
  "example_verdict = \<lparr>IsValid = True, ValidationError = ''''\<rparr>"

definition failing_marshal :: "PublicKey \<Rightarrow> byte list" where
  "failing_marshal pub = []"

definition example_root_name :: Subject where
  "example_root_name = \<lparr>Subject_ID = 0, Country = Slice [''US''],
     Organisation = Slice [''Example CA'', ''Example Trust''], OrgUnit = NilSlice,
     CommonName = ''Example Root''\<rparr>"

definition example_root :: Certificate where
  "example_root = Certificate_zero\<lparr>Issuer := example_root_name, Subject := example_root_name\<rparr>"

section \<open>Subject.String as the list of its components\<close>


section \<open>Auxiliary facts\<close>

lemma index_array_in_range:
  "0 \<le> i \<Longrightarrow> i < int (length tab) \<Longrightarrow> index_array tab i = Inr (tab ! nat i)"
  by (simp add: index_array_def)

lemma index_array_panic: "index_array tab i = Inl p \<Longrightarrow> p = index_out_of_range"
  by (simp add: index_array_def split: if_splits)

lemma getExtKeyUsages_known_in_range:
  "\<forall>eku\<in>set ekus. 0 \<le> eku \<and> eku \<le> 11 \<Longrightarrow> \<exists>u. getExtKeyUsages_known ekus usage = Inr u"
proof (induction ekus arbitrary: usage)
  case Nil
  show ?case by simp
next
  case (Cons eku ekus)
  then have "index_array ExtKeyUsage_names eku = Inr (ExtKeyUsage_names ! nat eku)"
    by (intro index_array_in_range) (simp_all add: ExtKeyUsage_names_def)
  with Cons show ?case by simp
qed

lemma getExtKeyUsages_known_panic:
  "getExtKeyUsages_known ekus usage = Inl p \<Longrightarrow> p = index_out_of_range"
  by (induction ekus arbitrary: usage) (auto split: sum.splits dest: index_array_panic)

lemma getExtKeyUsages_known_not_nil:
  "getExtKeyUsages_known ekus usage = Inr u \<Longrightarrow> usage \<noteq> NilSlice \<Longrightarrow> u \<noteq> NilSlice"
proof (induction ekus arbitrary: usage)
  case Nil
  then show ?case by simp
next
  case (Cons eku ekus)
  from Cons.prems(1) obtain name where
    step: "getExtKeyUsages_known ekus (go_append usage [name]) = Inr u"
    by (auto split: sum.splits)
  from Cons.prems(2) have "go_append usage [name] \<noteq> NilSlice"
    by (cases usage) simp_all
  with Cons.IH step show ?case by blast
qed

lemma foldl_go_append_not_nil:
  "s \<noteq> NilSlice \<Longrightarrow> foldl (\<lambda>acc x. go_append acc [f x]) s xs \<noteq> NilSlice"
proof (induction xs arbitrary: s)
  case Nil
  then show ?case by simp
next
  case (Cons x xs)
  from Cons.prems have "go_append s [f x] \<noteq> NilSlice" by (cases s) simp_all
  with Cons.IH show ?case by simp
qed

lemma getExtKeyUsages_in_range:
  "\<forall>eku\<in>set (elems (x509_ExtKeyUsage cert)). 0 \<le> eku \<and> eku \<le> 11
     \<Longrightarrow> \<exists>u. getExtKeyUsages cert = Inr u"
  using getExtKeyUsages_known_in_range [of "elems (x509_ExtKeyUsage cert)" make0]
  by (auto simp: getExtKeyUsages_def)

lemma getExtKeyUsages_panic: "getExtKeyUsages cert = Inl p \<Longrightarrow> p = index_out_of_range"
  by (auto simp: getExtKeyUsages_def split: sum.splits dest: getExtKeyUsages_known_panic)

lemma getExtKeyUsages_not_nil: "getExtKeyUsages cert = Inr u \<Longrightarrow> u \<noteq> NilSlice"
  by (auto simp: getExtKeyUsages_def make0_def split: sum.splits
      dest!: getExtKeyUsages_known_not_nil intro!: foldl_go_append_not_nil)

lemma getPolicyIdentifiers_not_nil: "getPolicyIdentifiers cert \<noteq> NilSlice"
  by (simp add: getPolicyIdentifiers_def make0_def foldl_go_append_not_nil)

lemma getKeyUsages_not_nil: "getKeyUsages cert \<noteq> NilSlice"
  by (simp add: getKeyUsages_def make0_def Let_def)

lemma getCertExtensions_in_range:
  "\<forall>eku\<in>set (elems (x509_ExtKeyUsage cert)). 0 \<le> eku \<and> eku \<le> 11
     \<Longrightarrow> \<exists>ext. getCertExtensions cert = Inr ext"
  using getExtKeyUsages_in_range [of cert]
  by (auto simp: getCertExtensions_def Let_def)

lemma getCertExtensions_panic: "getCertExtensions cert = Inl p \<Longrightarrow> p = index_out_of_range"
  by (auto simp: getCertExtensions_def Let_def split: sum.splits dest: getExtKeyUsages_panic)

lemma getCertExtensions_not_nil:
  assumes "getCertExtensions cert = Inr ext"
  shows "KeyUsage ext \<noteq> NilSlice" and "ExtendedKeyUsage ext \<noteq> NilSlice"
    and "SubjectAlternativeName ext \<noteq> NilSlice" and "CRLDistributionPoints ext \<noteq> NilSlice"
    and "PolicyIdentifiers ext \<noteq> NilSlice" and "PermittedNames ext \<noteq> NilSlice"
  using assms getKeyUsages_not_nil [of cert] getPolicyIdentifiers_not_nil [of cert]
  by (auto simp: getCertExtensions_def Let_def make0_def split: sum.splits if_splits
      dest: getExtKeyUsages_not_nil)

lemma getPublicKeyInfo_in_range:
  "0 \<le> x509_PublicKeyAlgorithm cert \<Longrightarrow> x509_PublicKeyAlgorithm cert \<le> 3
     \<Longrightarrow> \<exists>r. getPublicKeyInfo cert = Inr r"
  by (simp add: getPublicKeyInfo_def index_array_def PublicKeyAlgorithm_names_def Let_def)

lemma getPublicKeyInfo_panic: "getPublicKeyInfo cert = Inl p \<Longrightarrow> p = index_out_of_range"
  by (auto simp: getPublicKeyInfo_def Let_def split: sum.splits dest: index_array_panic)

subsection \<open>CertToStored in closed form\<close>

text \<open>
  When the three table lookups succeed and the verdict pointer is not nil, the certificate
  that \<open>CertToStored\<close> returns can be written down field by field.
\<close>

lemma CertToStored_Inr:
  assumes "index_array SignatureAlgorithm_names (x509_SignatureAlgorithm cert) = Inr sigAlg"
    and "getPublicKeyInfo cert = Inr (key, err)"
    and "getCertExtensions cert = Inr ext"
  shows "CertToStored marshal now cert parentSignature domain ip TSName (Some v) = Inr
     \<lparr>ID = 0,
      Serial = ToUpper (hex_EncodeToString (Int_Bytes (x509_SerialNumber cert))),
      ScanTarget = (if x509_IsCA cert then '''' else domain),
      IPs = (if x509_IsCA cert then Slice [] else Slice [ip]),
      Version = x509_Version cert,
      SignatureAlgorithm = sigAlg,
      Issuer = \<lparr>Subject_ID = 0, Country = pkix_Country (x509_Issuer cert),
                 Organisation = pkix_Organization (x509_Issuer cert),
                 OrgUnit = pkix_OrganizationalUnit (x509_Issuer cert),
                 CommonName = pkix_CommonName (x509_Issuer cert)\<rparr>,
      Validity = \<lparr>NotBefore = UTC (x509_NotBefore cert), NotAfter = UTC (x509_NotAfter cert)\<rparr>,
      Subject = \<lparr>Subject_ID = 0, Country = pkix_Country (x509_Subject cert),
                  Organisation = pkix_Organization (x509_Subject cert),
                  OrgUnit = pkix_OrganizationalUnit (x509_Subject cert),
                  CommonName = pkix_CommonName (x509_Subject cert)\<rparr>,
      Key = key,
      X509v3Extensions = ext,
      X509v3BasicConstraints =
        (if 3 \<le> x509_Version cert \<and> x509_BasicConstraintsValid cert then ''Critical'' else ''''),
      CA = (if x509_Version cert < 3 then x509_IsCA cert
            else x509_BasicConstraintsValid cert \<and> x509_IsCA cert),
      Analysis = None,
      ParentSignature = Slice [parentSignature],
      ValidationInfo = [TSName \<mapsto> v],
      FirstSeenTimestamp = UTC now,
      LastSeenTimestamp = UTC now,
      Hashes = \<lparr>MD5 = MD5Hash (x509_Raw cert), SHA1 = SHA1Hash (x509_Raw cert),
                 SHA256 = SHA256Hash (x509_Raw cert),
                 SHA256SubjectSPKI_hash = SHA256SubjectSPKI cert,
                 PKPSHA256 = PKPSHA256Hash marshal cert\<rparr>,
      Raw = base64_EncodeToString (x509_Raw cert),
      Anomalies = ''''\<rparr>"
proof (cases "x509_Version cert < 3")
  case old: True
  show ?thesis
  proof (cases "x509_IsCA cert")
    case True
    with old show ?thesis
      unfolding CertToStored_def
      by (simp add: assms Let_def Certificate_zero_def Subject_zero_def Hashes_zero_def make0_def)
  next
    case False
    with old show ?thesis
      unfolding CertToStored_def
      by (simp add: assms Let_def Certificate_zero_def Subject_zero_def Hashes_zero_def make0_def)
  qed
next
  case v3: False
  show ?thesis
  proof (cases "x509_BasicConstraintsValid cert")
    case valid: True
    show ?thesis
    proof (cases "x509_IsCA cert")
      case True
      with v3 valid show ?thesis
        unfolding CertToStored_def
        by (simp add: assms Let_def Certificate_zero_def Subject_zero_def Hashes_zero_def make0_def)
    next
      case False
      with v3 valid show ?thesis
        unfolding CertToStored_def
        by (simp add: assms Let_def Certificate_zero_def Subject_zero_def Hashes_zero_def make0_def)
    qed
  next
    case invalid: False
    show ?thesis
    proof (cases "x509_IsCA cert")
      case True
      with v3 invalid show ?thesis
        unfolding CertToStored_def
        by (simp add: assms Let_def Certificate_zero_def Subject_zero_def Hashes_zero_def make0_def)
    next
      case False
      with v3 invalid show ?thesis
        unfolding CertToStored_def
        by (simp add: assms Let_def Certificate_zero_def Subject_zero_def Hashes_zero_def make0_def)
    qed
  qed
qed

text \<open>The four points at which \<open>CertToStored\<close> can panic, in the order they are met.\<close>

lemma CertToStored_Inl_signature:
  assumes "index_array SignatureAlgorithm_names (x509_SignatureAlgorithm cert) = Inl p"
  shows "CertToStored marshal now cert parentSignature domain ip TSName valInfo = Inl p"
  unfolding CertToStored_def by (simp add: assms Let_def)

lemma CertToStored_Inl_key:
  assumes "index_array SignatureAlgorithm_names (x509_SignatureAlgorithm cert) = Inr sigAlg"
    and "getPublicKeyInfo cert = Inl p"
  shows "CertToStored marshal now cert parentSignature domain ip TSName valInfo = Inl p"
  unfolding CertToStored_def by (simp add: assms Let_def)

lemma CertToStored_Inl_extensions:
  assumes "index_array SignatureAlgorithm_names (x509_SignatureAlgorithm cert) = Inr sigAlg"
    and "getPublicKeyInfo cert = Inr (key, err)"
    and "getCertExtensions cert = Inl p"
  shows "CertToStored marshal now cert parentSignature domain ip TSName valInfo = Inl p"
  unfolding CertToStored_def by (simp add: assms Let_def)

lemma CertToStored_Inl_nil:
  assumes "index_array SignatureAlgorithm_names (x509_SignatureAlgorithm cert) = Inr sigAlg"
    and "getPublicKeyInfo cert = Inr (key, err)"
    and "getCertExtensions cert = Inr ext"
  shows "CertToStored marshal now cert parentSignature domain ip TSName None
           = Inl nil_pointer_dereference"
  unfolding CertToStored_def by (simp add: assms Let_def)

text \<open>The lookups are not guarded: an index outside a table makes \<open>CertToStored\<close> panic.\<close>

lemma CertToStored_unchecked_index:
  assumes "x509_SignatureAlgorithm cert < 0 \<or> 12 < x509_SignatureAlgorithm cert"
  shows "CertToStored marshal now cert parentSignature domain ip TSName valInfo
           = Inl index_out_of_range"
proof -
  from assms
  have "index_array SignatureAlgorithm_names (x509_SignatureAlgorithm cert) = Inl index_out_of_range"
    by (auto simp: index_array_def SignatureAlgorithm_names_def)
  then show ?thesis by (rule CertToStored_Inl_signature)
qed

lemma CertToStored_Inr_cases:
  assumes "CertToStored marshal now cert parentSignature domain ip TSName valInfo = Inr stored"
  obtains sigAlg key err ext v where
    "index_array SignatureAlgorithm_names (x509_SignatureAlgorithm cert) = Inr sigAlg"
    "getPublicKeyInfo cert = Inr (key, err)"
    "getCertExtensions cert = Inr ext"
    "valInfo = Some v"
proof -
  obtain sigAlg where
    a: "index_array SignatureAlgorithm_names (x509_SignatureAlgorithm cert) = Inr sigAlg"
    using assms CertToStored_Inl_signature [of cert _ marshal now parentSignature domain ip TSName valInfo]
    by (cases "index_array SignatureAlgorithm_names (x509_SignatureAlgorithm cert)") simp_all
  obtain key err where b: "getPublicKeyInfo cert = Inr (key, err)"
    using assms CertToStored_Inl_key [OF a, of _ marshal now parentSignature domain ip TSName valInfo]
    by (cases "getPublicKeyInfo cert") auto
  obtain ext where c: "getCertExtensions cert = Inr ext"
    using assms CertToStored_Inl_extensions [OF a b, of _ marshal now parentSignature domain ip TSName valInfo]
    by (cases "getCertExtensions cert") simp_all
  obtain v where d: "valInfo = Some v"
    using assms CertToStored_Inl_nil [OF a b c, of marshal now parentSignature domain ip TSName]
    by (cases valInfo) simp_all
  from a b c d show thesis by (rule that)
qed

lemma CertToStored_panic:
  assumes "CertToStored marshal now cert parentSignature domain ip TSName valInfo = Inl p"
  shows "p = index_out_of_range \<or> (p = nil_pointer_dereference \<and> valInfo = None)"
proof (cases "index_array SignatureAlgorithm_names (x509_SignatureAlgorithm cert)")
  case (Inl q)
  with assms CertToStored_Inl_signature [OF Inl, of marshal now parentSignature domain ip TSName valInfo]
  show ?thesis by (auto dest: index_array_panic)
next
  case a: (Inr sigAlg)
  show ?thesis
  proof (cases "getPublicKeyInfo cert")
    case (Inl q)
    with assms CertToStored_Inl_key [OF a Inl, of marshal now parentSignature domain ip TSName valInfo]
    show ?thesis by (auto dest: getPublicKeyInfo_panic)
  next
    case (Inr r)
    then obtain key err where b: "getPublicKeyInfo cert = Inr (key, err)"
      by (cases r) simp
    show ?thesis
    proof (cases "getCertExtensions cert")
      case (Inl q)
      with assms
        CertToStored_Inl_extensions [OF a b Inl, of marshal now parentSignature domain ip TSName valInfo]
      show ?thesis by (auto dest: getCertExtensions_panic)
    next
      case c: (Inr ext)
      show ?thesis
      proof (cases valInfo)
        case None
        with assms CertToStored_Inl_nil [OF a b c, of marshal now parentSignature domain ip TSName]
        show ?thesis by simp
      next
        case (Some v)
        with assms CertToStored_Inr [OF a b c, of marshal now parentSignature domain ip TSName v]
        show ?thesis by simp
      qed
    qed
  qed
qed

lemma CertToStored_in_range:
  assumes "0 \<le> x509_SignatureAlgorithm cert" and "x509_SignatureAlgorithm cert \<le> 12"
    and "\<forall>eku\<in>set (elems (x509_ExtKeyUsage cert)). 0 \<le> eku \<and> eku \<le> 11"
    and "0 \<le> x509_PublicKeyAlgorithm cert" and "x509_PublicKeyAlgorithm cert \<le> 3"
  shows "\<exists>stored. CertToStored marshal now cert parentSignature domain ip TSName (Some v)
           = Inr stored"
    and "CertToStored marshal now cert parentSignature domain ip TSName None
           = Inl nil_pointer_dereference"
proof -
  from assms(1,2)
  have a: "index_array SignatureAlgorithm_names (x509_SignatureAlgorithm cert)
             = Inr (SignatureAlgorithm_names ! nat (x509_SignatureAlgorithm cert))"
    by (intro index_array_in_range) (simp_all add: SignatureAlgorithm_names_def)
  from assms(4,5) obtain key err where b: "getPublicKeyInfo cert = Inr (key, err)"
    using getPublicKeyInfo_in_range [of cert] by auto
  from assms(3) obtain ext where c: "getCertExtensions cert = Inr ext"
    using getCertExtensions_in_range by blast
  from CertToStored_Inr [OF a b c]
  show "\<exists>stored. CertToStored marshal now cert parentSignature domain ip TSName (Some v)
          = Inr stored"
    by blast
  from CertToStored_Inl_nil [OF a b c]
  show "CertToStored marshal now cert parentSignature domain ip TSName None
          = Inl nil_pointer_dereference" .
qed

text \<open>The fields of a returned certificate that the properties below are about.\<close>

lemma CertToStored_fields:
  assumes "CertToStored marshal now cert parentSignature domain ip TSName valInfo = Inr stored"
  shows "CA stored = (if x509_Version cert < 3 then x509_IsCA cert
                      else x509_BasicConstraintsValid cert \<and> x509_IsCA cert)"
    and "X509v3BasicConstraints stored =
           (if 3 \<le> x509_Version cert \<and> x509_BasicConstraintsValid cert
            then ''Critical'' else '''')"
    and "ScanTarget stored = (if x509_IsCA cert then '''' else domain)"
    and "IPs stored = (if x509_IsCA cert then Slice [] else Slice [ip])"
    and "ParentSignature stored = Slice [parentSignature]"
    and "\<exists>v. valInfo = Some v \<and> ValidationInfo stored = [TSName \<mapsto> v]"
    and "getCertExtensions cert = Inr (X509v3Extensions stored)"
    and "Country (Subject stored) = pkix_Country (x509_Subject cert)"
    and "Organisation (Subject stored) = pkix_Organization (x509_Subject cert)"
    and "OrgUnit (Subject stored) = pkix_OrganizationalUnit (x509_Subject cert)"
    and "Country (Issuer stored) = pkix_Country (x509_Issuer cert)"
    and "Organisation (Issuer stored) = pkix_Organization (x509_Issuer cert)"
    and "OrgUnit (Issuer stored) = pkix_OrganizationalUnit (x509_Issuer cert)"
proof -
  from assms obtain sigAlg key err ext v where
    a: "index_array SignatureAlgorithm_names (x509_SignatureAlgorithm cert) = Inr sigAlg" and
    b: "getPublicKeyInfo cert = Inr (key, err)" and
    c: "getCertExtensions cert = Inr ext" and
    d: "valInfo = Some v"
    by (rule CertToStored_Inr_cases)
  note eq = assms [unfolded d CertToStored_Inr [OF a b c], simplified, symmetric]
  show "CA stored = (if x509_Version cert < 3 then x509_IsCA cert
                      else x509_BasicConstraintsValid cert \<and> x509_IsCA cert)"
    by (simp add: eq)
  show "X509v3BasicConstraints stored =
           (if 3 \<le> x509_Version cert \<and> x509_BasicConstraintsValid cert
            then ''Critical'' else '''')"
    by (simp add: eq)
  show "ScanTarget stored = (if x509_IsCA cert then '''' else domain)"
    by (simp add: eq)
  show "IPs stored = (if x509_IsCA cert then Slice [] else Slice [ip])"
    by (simp add: eq)
  show "ParentSignature stored = Slice [parentSignature]"
    by (simp add: eq)
  show "\<exists>v. valInfo = Some v \<and> ValidationInfo stored = [TSName \<mapsto> v]"
    by (simp add: eq d)
  show "getCertExtensions cert = Inr (X509v3Extensions stored)"
    by (simp add: eq c)
  show "Country (Subject stored) = pkix_Country (x509_Subject cert)"
    by (simp add: eq)
  show "Organisation (Subject stored) = pkix_Organization (x509_Subject cert)"
    by (simp add: eq)
  show "OrgUnit (Subject stored) = pkix_OrganizationalUnit (x509_Subject cert)"
    by (simp add: eq)
  show "Country (Issuer stored) = pkix_Country (x509_Issuer cert)"
    by (simp add: eq)
  show "Organisation (Issuer stored) = pkix_Organization (x509_Issuer cert)"
    by (simp add: eq)
  show "OrgUnit (Issuer stored) = pkix_OrganizationalUnit (x509_Issuer cert)"
    by (simp add: eq)
qed

lemma example_leaf_in_range:
  "0 \<le> x509_SignatureAlgorithm example_leaf" "x509_SignatureAlgorithm example_leaf \<le> 12"
  "\<forall>eku\<in>set (elems (x509_ExtKeyUsage example_leaf)). 0 \<le> eku \<and> eku \<le> 11"
  "0 \<le> x509_PublicKeyAlgorithm example_leaf" "x509_PublicKeyAlgorithm example_leaf \<le> 3"
  by (simp_all add: example_leaf_def)

lemma example_ca_in_range:
  "0 \<le> x509_SignatureAlgorithm example_ca" "x509_SignatureAlgorithm example_ca \<le> 12"
  "\<forall>eku\<in>set (elems (x509_ExtKeyUsage example_ca)). 0 \<le> eku \<and> eku \<le> 11"
  "0 \<le> x509_PublicKeyAlgorithm example_ca" "x509_PublicKeyAlgorithm example_ca \<le> 3"
  by (simp_all add: example_ca_def example_leaf_def)

lemma example_v4_in_range:
  "0 \<le> x509_SignatureAlgorithm example_v4" "x509_SignatureAlgorithm example_v4 \<le> 12"
  "\<forall>eku\<in>set (elems (x509_ExtKeyUsage example_v4)). 0 \<le> eku \<and> eku \<le> 11"
  "0 \<le> x509_PublicKeyAlgorithm example_v4" "x509_PublicKeyAlgorithm example_v4 \<le> 3"
  by (simp_all add: example_v4_def example_leaf_def)

subsection \<open>Joining strings, comparing slices, the empty digest\<close>






lemma range_differs_suffix:
  "elems b = pre @ ys \<Longrightarrow> length pre = i \<Longrightarrow> length ys = length xs
     \<Longrightarrow> range_differs i xs b = Inr (xs \<noteq> ys)"
proof (induction xs arbitrary: i pre ys)
  case Nil
  then show ?case by simp
next
  case (Cons x xs)
  from Cons.prems(3) obtain y ys' where ys: "ys = y # ys'" and l: "length ys' = length xs"
    by (cases ys) simp_all
  from Cons.prems(1,2) ys have at: "index_slice b i = Inr y"
    by (simp add: index_slice_def len_def nth_append)
  from Cons.prems(1,2) ys have "elems b = (pre @ [y]) @ ys'" and "length (pre @ [y]) = Suc i"
    by simp_all
  from Cons.IH [OF this l] have "range_differs (Suc i) xs b = Inr (xs \<noteq> ys')" .
  with at ys show ?case by simp
qed

lemma range_differs_same_length:
  "len a = len b \<Longrightarrow> range_differs 0 (elems a) b = Inr (elems a \<noteq> elems b)"
  using range_differs_suffix [of b "[]" "elems b" 0 "elems a"] by (simp add: len_def)

lemma same_elements_iff:
  "xs = ys \<longleftrightarrow> length xs = length ys \<and> (\<forall>i<length xs. xs ! i = ys ! i)"
  by (auto simp: list_eq_iff_nth_eq)

lemma sha256_empty:
  "base64_EncodeToString (sha256_Sum256 []) = ''47DEQpj8HBSa+/TImW+5JCeuQeRkm5NMpJWZG3hSuFU=''"
  by code_simp

section \<open>Properties of the package\<close>

text \<open>
  C1 (as the code has it).  A map built by \<open>GetValidityMap\<close> has exactly the five keys
  Ubuntu, Mozilla, Microsoft, Apple and Android.  The certificate returned by
  \<open>CertToStored\<close> carries exactly one key in its validation map: the trust-store name it
  was given, with the verdict it was given.
\<close>

theorem validationInfo_keys:
  "dom (GetValidityMap trusted_ubuntu trusted_mozilla trusted_microsoft trusted_apple trusted_android)
     = {''Ubuntu'', ''Mozilla'', ''Microsoft'', ''Apple'', ''Android''} \<and>
   card (dom (GetValidityMap trusted_ubuntu trusted_mozilla trusted_microsoft trusted_apple
                trusted_android)) = 5 \<and>
   (CertToStored marshal now cert parentSignature domain ip TSName valInfo = Inr stored \<longrightarrow>
      dom (ValidationInfo stored) = {TSName} \<and> card (dom (ValidationInfo stored)) = 1 \<and>
      valInfo = ValidationInfo stored TSName)"
proof -
  have keys: "dom (GetValidityMap trusted_ubuntu trusted_mozilla trusted_microsoft trusted_apple
                     trusted_android)
                = {''Ubuntu'', ''Mozilla'', ''Microsoft'', ''Apple'', ''Android''}"
    by (auto simp: GetValidityMap_def Ubuntu_TS_name_def Mozilla_TS_name_def
        Microsoft_TS_name_def Apple_TS_name_def Android_TS_name_def)
  have five: "card {''Ubuntu'', ''Mozilla'', ''Microsoft'', ''Apple'', ''Android''} = 5"
    by simp
  have one: "dom (ValidationInfo stored) = {TSName} \<and> card (dom (ValidationInfo stored)) = 1 \<and>
      valInfo = ValidationInfo stored TSName"
    if "CertToStored marshal now cert parentSignature domain ip TSName valInfo = Inr stored"
  proof -
    from CertToStored_fields(6) [OF that] obtain v where
      v: "valInfo = Some v" "ValidationInfo stored = [TSName \<mapsto> v]"
      by blast
    from v(2) have "dom (ValidationInfo stored) = {TSName}" by simp
    with v show ?thesis by simp
  qed
  from keys five one show ?thesis by simp
qed

text \<open>
  Witness for C1: the stored form of the example leaf, stamped with the Mozilla verdict.
\<close>

theorem validationInfo_keys_witness:
  "\<exists>stored. CertToStored failing_marshal example_now example_leaf ''-- --'' ''www.example.com''
       ''192.0.2.7'' Mozilla_TS_name (Some example_verdict) = Inr stored \<and>
     dom (ValidationInfo stored) = {''Mozilla''} \<and>
     dom (GetValidityMap True True False True True)
       = {''Ubuntu'', ''Mozilla'', ''Microsoft'', ''Apple'', ''Android''}"
proof -
  obtain stored where s: "CertToStored failing_marshal example_now example_leaf ''-- --''
      ''www.example.com'' ''192.0.2.7'' Mozilla_TS_name (Some example_verdict) = Inr stored"
    using CertToStored_in_range(1) [OF example_leaf_in_range] by blast
  with validationInfo_keys [of True True False True True failing_marshal example_now example_leaf
      "''-- --''" "''www.example.com''" "''192.0.2.7''" Mozilla_TS_name "Some example_verdict" stored]
  show ?thesis by (simp add: Mozilla_TS_name_def)
qed

text \<open>
  Counterexample to C1 as stated: after \<open>CertToStored\<close> has stamped the Mozilla verdict on
  the example leaf, the validation map has one key, not five.
\<close>

theorem validationInfo_single_key_example:
  "map_sum id (\<lambda>stored. (dom (ValidationInfo stored), card (dom (ValidationInfo stored))))
     (CertToStored failing_marshal example_now example_leaf ''-- --'' ''www.example.com''
        ''192.0.2.7'' Mozilla_TS_name (Some example_verdict))
   = Inr ({''Mozilla''}, 1)"
proof -
  obtain stored where s: "CertToStored failing_marshal example_now example_leaf ''-- --''
      ''www.example.com'' ''192.0.2.7'' Mozilla_TS_name (Some example_verdict) = Inr stored"
    using CertToStored_in_range(1) [OF example_leaf_in_range] by blast
  from CertToStored_fields(6) [OF s] have "ValidationInfo stored = [''Mozilla'' \<mapsto> example_verdict]"
    by (simp add: Mozilla_TS_name_def)
  with s show ?thesis by simp
qed

text \<open>
  C2 (as the code has it).  For a certificate whose public key is of none of the three
  types RSA, DSA and ECDSA (the parser leaves such a key when the public-key algorithm
  is not one of the three), nothing is written to the hash, and \<open>PKPSHA256Hash\<close> returns
  the base64 encoding of the SHA-256 digest of the empty input: a fixed string of 44
  characters, whatever the certificate.
\<close>

theorem PKPSHA256Hash_unknown_key:
  "x509_PublicKey cert = other_PublicKey \<Longrightarrow>
     PKPSHA256Hash marshal cert = base64_EncodeToString (sha256_Sum256 []) \<and>
     PKPSHA256Hash marshal cert = ''47DEQpj8HBSa+/TImW+5JCeuQeRkm5NMpJWZG3hSuFU=''"
  by (simp add: PKPSHA256Hash_def sha256_empty)

text \<open>Witness for C2: the example certificate with a key of unknown type.\<close>

theorem PKPSHA256Hash_unknown_key_witness:
  "x509_PublicKey example_unknown_key = other_PublicKey \<and>
   PKPSHA256Hash failing_marshal example_unknown_key
     = ''47DEQpj8HBSa+/TImW+5JCeuQeRkm5NMpJWZG3hSuFU=''"
proof -
  have k: "x509_PublicKey example_unknown_key = other_PublicKey"
    by (simp add: example_unknown_key_def)
  from k PKPSHA256Hash_unknown_key [OF k, of failing_marshal] show ?thesis by blast
qed

text \<open>
  Counterexample to C2 as stated: for the example certificate with a key of unknown type
  (and public-key algorithm 0, unknown) the pin is not the empty string.
\<close>

theorem PKPSHA256Hash_not_empty_example:
  "x509_PublicKeyAlgorithm example_unknown_key = 0 \<and>
   x509_PublicKey example_unknown_key = other_PublicKey \<and>
   PKPSHA256Hash failing_marshal example_unknown_key \<noteq> ''''"
  by (simp add: example_unknown_key_def PKPSHA256Hash_def sha256_empty)

text \<open>
  C3.  The stored \<open>ca\<close> flag is true if and only if either the version is below 3 and the
  parser flagged IsCA, or the version is at least 3, BasicConstraints is valid and IsCA
  is set.
\<close>

theorem CertToStored_ca:
  assumes "CertToStored marshal now cert parentSignature domain ip TSName valInfo = Inr stored"
  shows "CA stored \<longleftrightarrow>
           (x509_Version cert < 3 \<and> x509_IsCA cert) \<or>
           (3 \<le> x509_Version cert \<and> x509_BasicConstraintsValid cert \<and> x509_IsCA cert)"
  using CertToStored_fields(1) [OF assms] by auto

text \<open>Witness for C3: the example CA certificate (version 3, valid BasicConstraints).\<close>

theorem CertToStored_ca_witness:
  "\<exists>stored. CertToStored failing_marshal example_now example_ca ''-- --'' ''www.example.com''
       ''192.0.2.7'' Mozilla_TS_name (Some example_verdict) = Inr stored \<and> CA stored"
proof -
  obtain stored where s: "CertToStored failing_marshal example_now example_ca ''-- --''
      ''www.example.com'' ''192.0.2.7'' Mozilla_TS_name (Some example_verdict) = Inr stored"
    using CertToStored_in_range(1) [OF example_ca_in_range] by blast
  from CertToStored_ca [OF s] have "CA stored"
    by (simp add: example_ca_def example_leaf_def)
  with s show ?thesis by blast
qed

text \<open>
  C4 (as the code has it).  The stored basic-constraints string is \<open>Critical\<close> if and only
  if the certificate version is at least 3 and the certificate carries a valid
  BasicConstraints extension, and is empty otherwise.
\<close>

theorem CertToStored_basic_constraints:
  assumes "CertToStored marshal now cert parentSignature domain ip TSName valInfo = Inr stored"
  shows "(X509v3BasicConstraints stored = ''Critical'' \<longleftrightarrow>
            3 \<le> x509_Version cert \<and> x509_BasicConstraintsValid cert) \<and>
         (\<not> (3 \<le> x509_Version cert \<and> x509_BasicConstraintsValid cert) \<longrightarrow>
            X509v3BasicConstraints stored = '''')"
  using CertToStored_fields(2) [OF assms] by auto

text \<open>Witness for C4: the example leaf (version 3, valid BasicConstraints).\<close>

theorem CertToStored_basic_constraints_witness:
  "\<exists>stored. CertToStored failing_marshal example_now example_leaf ''-- --'' ''www.example.com''
       ''192.0.2.7'' Mozilla_TS_name (Some example_verdict) = Inr stored \<and>
     X509v3BasicConstraints stored = ''Critical''"
proof -
  obtain stored where s: "CertToStored failing_marshal example_now example_leaf ''-- --''
      ''www.example.com'' ''192.0.2.7'' Mozilla_TS_name (Some example_verdict) = Inr stored"
    using CertToStored_in_range(1) [OF example_leaf_in_range] by blast
  from CertToStored_basic_constraints [OF s] have "X509v3BasicConstraints stored = ''Critical''"
    by (simp add: example_leaf_def)
  with s show ?thesis by blast
qed

text \<open>
  Counterexample to C4 as stated: a certificate whose version is 4, not 3, with a valid
  BasicConstraints extension is stored with the string \<open>Critical\<close>.
\<close>

theorem CertToStored_basic_constraints_v4_example:
  "x509_Version example_v4 = 4 \<and>
   map_sum id X509v3BasicConstraints
     (CertToStored failing_marshal example_now example_v4 ''-- --'' ''www.example.com''
        ''192.0.2.7'' Mozilla_TS_name (Some example_verdict))
   = Inr ''Critical''"
proof -
  obtain stored where s: "CertToStored failing_marshal example_now example_v4 ''-- --''
      ''www.example.com'' ''192.0.2.7'' Mozilla_TS_name (Some example_verdict) = Inr stored"
    using CertToStored_in_range(1) [OF example_v4_in_range] by blast
  from CertToStored_fields(2) [OF s] have "X509v3BasicConstraints stored = ''Critical''"
    by (simp add: example_v4_def example_leaf_def)
  with s show ?thesis by (simp add: example_v4_def)
qed

text \<open>
  C5.  A certificate returned by \<open>CertToStored\<close> with \<open>ca = true\<close> has an empty scan target
  and no IPs: both are only filled in when the parsed certificate is not a CA.
\<close>

theorem CertToStored_ca_has_no_target:
  assumes "CertToStored marshal now cert parentSignature domain ip TSName valInfo = Inr stored"
    and "CA stored"
  shows "ScanTarget stored = '''' \<and> elems (IPs stored) = [] \<and> len (IPs stored) = 0"
proof -
  from CertToStored_fields(1) [OF assms(1)] assms(2) have "x509_IsCA cert"
    by (simp split: if_splits)
  with CertToStored_fields(3,4) [OF assms(1)] show ?thesis
    by (simp add: len_def)
qed

text \<open>Witness for C5: the example CA certificate, scanned at a domain and an address.\<close>

theorem CertToStored_ca_has_no_target_witness:
  "\<exists>stored. CertToStored failing_marshal example_now example_ca ''-- --'' ''www.example.com''
       ''192.0.2.7'' Mozilla_TS_name (Some example_verdict) = Inr stored \<and>
     CA stored \<and> ScanTarget stored = '''' \<and> elems (IPs stored) = []"
proof -
  obtain stored where s: "CertToStored failing_marshal example_now example_ca ''-- --''
      ''www.example.com'' ''192.0.2.7'' Mozilla_TS_name (Some example_verdict) = Inr stored"
    using CertToStored_in_range(1) [OF example_ca_in_range] by blast
  from CertToStored_fields(1) [OF s] have ca: "CA stored"
    by (simp add: example_ca_def example_leaf_def)
  from CertToStored_ca_has_no_target [OF s ca] s ca show ?thesis by blast
qed

text \<open>
  C6 (as the code has it).  In a certificate returned by \<open>CertToStored\<close> the lists ips
  and parentSignature and the six extension lists are never nil (they are empty lists
  when they have no element).  The Country, Organisation and OrgUnit lists of subject
  and issuer are the slices of the parsed certificate, copied as they are: nil where the
  parser left them nil.
\<close>

theorem CertToStored_lists:
  assumes "CertToStored marshal now cert parentSignature domain ip TSName valInfo = Inr stored"
  shows "IPs stored \<noteq> NilSlice \<and> ParentSignature stored \<noteq> NilSlice \<and>
         SubjectAlternativeName (X509v3Extensions stored) \<noteq> NilSlice \<and>
         CRLDistributionPoints (X509v3Extensions stored) \<noteq> NilSlice \<and>
         PermittedNames (X509v3Extensions stored) \<noteq> NilSlice \<and>
         KeyUsage (X509v3Extensions stored) \<noteq> NilSlice \<and>
         ExtendedKeyUsage (X509v3Extensions stored) \<noteq> NilSlice \<and>
         PolicyIdentifiers (X509v3Extensions stored) \<noteq> NilSlice \<and>
         Country (Subject stored) = pkix_Country (x509_Subject cert) \<and>
         Organisation (Subject stored) = pkix_Organization (x509_Subject cert) \<and>
         OrgUnit (Subject stored) = pkix_OrganizationalUnit (x509_Subject cert) \<and>
         Country (Issuer stored) = pkix_Country (x509_Issuer cert) \<and>
         Organisation (Issuer stored) = pkix_Organization (x509_Issuer cert) \<and>
         OrgUnit (Issuer stored) = pkix_OrganizationalUnit (x509_Issuer cert)"
proof -
  note f = CertToStored_fields [OF assms]
  have own: "IPs stored \<noteq> NilSlice \<and> ParentSignature stored \<noteq> NilSlice"
    using f(4,5) by simp
  note ext = getCertExtensions_not_nil [OF f(7)]
  from own ext f(8-13) show ?thesis by simp
qed

text \<open>Witness for C6: the stored form of the example leaf.\<close>

theorem CertToStored_lists_witness:
  "\<exists>stored. CertToStored failing_marshal example_now example_leaf ''-- --'' ''www.example.com''
       ''192.0.2.7'' Mozilla_TS_name (Some example_verdict) = Inr stored \<and>
     IPs stored \<noteq> NilSlice \<and> CRLDistributionPoints (X509v3Extensions stored) \<noteq> NilSlice \<and>
     Country (Issuer stored) = Slice [''US'']"
proof -
  obtain stored where s: "CertToStored failing_marshal example_now example_leaf ''-- --''
      ''www.example.com'' ''192.0.2.7'' Mozilla_TS_name (Some example_verdict) = Inr stored"
    using CertToStored_in_range(1) [OF example_leaf_in_range] by blast
  from CertToStored_lists [OF s] have
    "IPs stored \<noteq> NilSlice \<and> CRLDistributionPoints (X509v3Extensions stored) \<noteq> NilSlice \<and>
     Country (Issuer stored) = Slice [''US'']"
    by (simp add: example_leaf_def)
  with s show ?thesis by blast
qed

text \<open>
  Counterexample to C6 as stated: the example leaf has no country in its subject (the
  parser left the slice nil), and the stored subject country is nil, not an empty list.
\<close>

theorem CertToStored_nil_country_example:
  "map_sum id (\<lambda>stored. Country (Subject stored))
     (CertToStored failing_marshal example_now example_leaf ''-- --'' ''www.example.com''
        ''192.0.2.7'' Mozilla_TS_name (Some example_verdict))
   = Inr NilSlice"
proof -
  obtain stored where s: "CertToStored failing_marshal example_now example_leaf ''-- --''
      ''www.example.com'' ''192.0.2.7'' Mozilla_TS_name (Some example_verdict) = Inr stored"
    using CertToStored_in_range(1) [OF example_leaf_in_range] by blast
  from CertToStored_fields(8) [OF s] have "Country (Subject stored) = NilSlice"
    by (simp add: example_leaf_def)
  with s show ?thesis by simp
qed



text \<open>
  C8.  \<open>IsSelfSigned\<close> returns (it never reads out of range), and it returns true if and
  only if subject and issuer have the same common name and their Country, Organisation
  and OrgUnit lists have equal length and equal elements at every index.
\<close>

theorem IsSelfSigned_iff:
  "IsSelfSigned c = Inr
     (CommonName (Subject c) = CommonName (Issuer c) \<and>
      (len (Country (Subject c)) = len (Country (Issuer c)) \<and>
       (\<forall>i<len (Country (Subject c)).
          elems (Country (Subject c)) ! i = elems (Country (Issuer c)) ! i)) \<and>
      (len (Organisation (Subject c)) = len (Organisation (Issuer c)) \<and>
       (\<forall>i<len (Organisation (Subject c)).
          elems (Organisation (Subject c)) ! i = elems (Organisation (Issuer c)) ! i)) \<and>
      (len (OrgUnit (Subject c)) = len (OrgUnit (Issuer c)) \<and>
       (\<forall>i<len (OrgUnit (Subject c)).
          elems (OrgUnit (Subject c)) ! i = elems (OrgUnit (Issuer c)) ! i)))"
proof -
  have lists: "(len a = len b \<and> (\<forall>i<len a. elems a ! i = elems b ! i)) = (elems a = elems b)"
    for a b :: "string slice"
    using same_elements_iff [of "elems a" "elems b"] by (simp add: len_def)
  show ?thesis
  proof (cases "CommonName (Subject c) \<noteq> CommonName (Issuer c) \<or>
         len (Organisation (Subject c)) \<noteq> len (Organisation (Issuer c)) \<or>
         len (OrgUnit (Subject c)) \<noteq> len (OrgUnit (Issuer c)) \<or>
         len (Country (Subject c)) \<noteq> len (Country (Issuer c))")
    case True
    then have "IsSelfSigned c = Inr False" by (simp add: IsSelfSigned_def)
    with True show ?thesis by auto
  next
    case False
    then have same: "CommonName (Subject c) = CommonName (Issuer c)"
      "len (Organisation (Subject c)) = len (Organisation (Issuer c))"
      "len (OrgUnit (Subject c)) = len (OrgUnit (Issuer c))"
      "len (Country (Subject c)) = len (Country (Issuer c))"
      by simp_all
    have "IsSelfSigned c = Inr (elems (Organisation (Subject c)) = elems (Organisation (Issuer c)) \<and>
        elems (OrgUnit (Subject c)) = elems (OrgUnit (Issuer c)) \<and>
        elems (Country (Subject c)) = elems (Country (Issuer c)))"
      by (simp add: IsSelfSigned_def same range_differs_same_length split: bool.splits)
    then show ?thesis
      unfolding lists using same(1) by auto
  qed
qed

text \<open>
  Witness for C8: the example root, whose subject and issuer agree, and the same
  certificate with another second organisation in the issuer.
\<close>

theorem IsSelfSigned_iff_witness:
  "IsSelfSigned example_root = Inr True \<and>
   IsSelfSigned (example_root\<lparr>Issuer :=
      example_root_name\<lparr>Organisation := Slice [''Example CA'', ''Other Trust'']\<rparr>\<rparr>) = Inr False"
proof -
  have "IsSelfSigned example_root = Inr True"
    using IsSelfSigned_iff [of example_root] by (simp add: example_root_def)
  moreover have "IsSelfSigned (example_root\<lparr>Issuer :=
      example_root_name\<lparr>Organisation := Slice [''Example CA'', ''Other Trust'']\<rparr>\<rparr>) = Inr False"
    using IsSelfSigned_iff [of "example_root\<lparr>Issuer :=
      example_root_name\<lparr>Organisation := Slice [''Example CA'', ''Other Trust'']\<rparr>\<rparr>"]
    by (auto simp: example_root_def example_root_name_def len_def)
  ultimately show ?thesis by simp
qed

text \<open>
  C9.  For each of the five trust stores \<open>GetBooleanValidity\<close> returns the \<open>isValid\<close> field
  of the entry of the validation map under that name, and false when the map has no
  entry under that name.
\<close>

theorem GetBooleanValidity_entries:
  "GetBooleanValidity c =
     (case ValidationInfo c ''Ubuntu'' of None \<Rightarrow> False | Some valInfo \<Rightarrow> IsValid valInfo,
      case ValidationInfo c ''Mozilla'' of None \<Rightarrow> False | Some valInfo \<Rightarrow> IsValid valInfo,
      case ValidationInfo c ''Microsoft'' of None \<Rightarrow> False | Some valInfo \<Rightarrow> IsValid valInfo,
      case ValidationInfo c ''Apple'' of None \<Rightarrow> False | Some valInfo \<Rightarrow> IsValid valInfo,
      case ValidationInfo c ''Android'' of None \<Rightarrow> False | Some valInfo \<Rightarrow> IsValid valInfo)"
  by (simp add: GetBooleanValidity_def lookup_ok_def Ubuntu_TS_name_def Mozilla_TS_name_def
      Microsoft_TS_name_def Apple_TS_name_def Android_TS_name_def split: option.splits)

text \<open>
  Instance of C9: a map with a valid Mozilla entry, an invalid Apple entry and no other
  entry.
\<close>

theorem GetBooleanValidity_entries_witness:
  "GetBooleanValidity (Certificate_zero\<lparr>ValidationInfo :=
       [''Mozilla'' \<mapsto> \<lparr>IsValid = True, ValidationError = ''''\<rparr>,
        ''Apple'' \<mapsto> \<lparr>IsValid = False, ValidationError = ''x509: certificate has expired''\<rparr>]\<rparr>)
   = (False, True, False, False, False)"
  using GetBooleanValidity_entries [of "Certificate_zero\<lparr>ValidationInfo :=
       [''Mozilla'' \<mapsto> \<lparr>IsValid = True, ValidationError = ''''\<rparr>,
        ''Apple'' \<mapsto> \<lparr>IsValid = False, ValidationError = ''x509: certificate has expired''\<rparr>]\<rparr>"]
  by simp

text \<open>
  C10.  The tables have 13, 12 and 4 entries.  When the signature algorithm of the parsed
  certificate is in 0..12, each of its extended key usages in 0..11 and its public-key
  algorithm in 0..3, every table lookup is in bounds and \<open>CertToStored\<close> does not panic
  with an index out of range; it returns a certificate for every verdict it is given
  (the one remaining panic is the dereference of a nil verdict pointer).
\<close>

theorem CertToStored_total:
  assumes "0 \<le> x509_SignatureAlgorithm cert \<and> x509_SignatureAlgorithm cert \<le> 12"
    and "\<forall>eku\<in>set (elems (x509_ExtKeyUsage cert)). 0 \<le> eku \<and> eku \<le> 11"
    and "0 \<le> x509_PublicKeyAlgorithm cert \<and> x509_PublicKeyAlgorithm cert \<le> 3"
  shows "length SignatureAlgorithm_names = 13 \<and> length ExtKeyUsage_names = 12 \<and>
         length PublicKeyAlgorithm_names = 4 \<and>
         (\<exists>name. index_array SignatureAlgorithm_names (x509_SignatureAlgorithm cert) = Inr name) \<and>
         (\<forall>eku\<in>set (elems (x509_ExtKeyUsage cert)).
            \<exists>name. index_array ExtKeyUsage_names eku = Inr name) \<and>
         (\<exists>name. index_array PublicKeyAlgorithm_names (x509_PublicKeyAlgorithm cert) = Inr name) \<and>
         CertToStored marshal now cert parentSignature domain ip TSName valInfo
           \<noteq> Inl index_out_of_range \<and>
         (\<exists>stored. CertToStored marshal now cert parentSignature domain ip TSName (Some v)
            = Inr stored)"
proof -
  have sizes: "length SignatureAlgorithm_names = 13" "length ExtKeyUsage_names = 12"
    "length PublicKeyAlgorithm_names = 4"
    by (simp_all add: SignatureAlgorithm_names_def ExtKeyUsage_names_def
        PublicKeyAlgorithm_names_def)
  from assms(1) sizes(1)
  have sa: "\<exists>name. index_array SignatureAlgorithm_names (x509_SignatureAlgorithm cert) = Inr name"
    by (simp add: index_array_def)
  from assms(2) sizes(2)
  have eku: "\<forall>eku\<in>set (elems (x509_ExtKeyUsage cert)).
      \<exists>name. index_array ExtKeyUsage_names eku = Inr name"
    by (auto simp: index_array_def)
  from assms(3) sizes(3)
  have pka: "\<exists>name. index_array PublicKeyAlgorithm_names (x509_PublicKeyAlgorithm cert) = Inr name"
    by (simp add: index_array_def)
  from assms have range: "0 \<le> x509_SignatureAlgorithm cert" "x509_SignatureAlgorithm cert \<le> 12"
    "\<forall>eku\<in>set (elems (x509_ExtKeyUsage cert)). 0 \<le> eku \<and> eku \<le> 11"
    "0 \<le> x509_PublicKeyAlgorithm cert" "x509_PublicKeyAlgorithm cert \<le> 3"
    by simp_all
  have returns: "\<exists>stored. CertToStored marshal now cert parentSignature domain ip TSName (Some v')
      = Inr stored" for v'
    using CertToStored_in_range(1) [OF range] .
  have "CertToStored marshal now cert parentSignature domain ip TSName valInfo
      \<noteq> Inl index_out_of_range"
  proof (cases valInfo)
    case None
    with CertToStored_in_range(2) [OF range, of marshal now parentSignature domain ip TSName]
    show ?thesis by simp
  next
    case (Some v')
    with returns [of v'] show ?thesis by auto
  qed
  with sizes sa eku pka returns [of v] show ?thesis by blast
qed

text \<open>Witness for C10: the example leaf, whose three kinds of index are in range.\<close>

theorem CertToStored_total_witness:
  "(0 \<le> x509_SignatureAlgorithm example_leaf \<and> x509_SignatureAlgorithm example_leaf \<le> 12) \<and>
   list_all (\<lambda>eku. 0 \<le> eku \<and> eku \<le> 11) (elems (x509_ExtKeyUsage example_leaf)) \<and>
   (0 \<le> x509_PublicKeyAlgorithm example_leaf \<and> x509_PublicKeyAlgorithm example_leaf \<le> 3) \<and>
   (\<exists>stored. CertToStored failing_marshal example_now example_leaf ''-- --'' ''www.example.com''
       ''192.0.2.7'' Mozilla_TS_name (Some example_verdict) = Inr stored)"
proof -
  have a: "0 \<le> x509_SignatureAlgorithm example_leaf \<and> x509_SignatureAlgorithm example_leaf \<le> 12"
    and b: "\<forall>eku\<in>set (elems (x509_ExtKeyUsage example_leaf)). 0 \<le> eku \<and> eku \<le> 11"
    and c: "0 \<le> x509_PublicKeyAlgorithm example_leaf \<and> x509_PublicKeyAlgorithm example_leaf \<le> 3"
    by (simp_all add: example_leaf_def)
  from b have b': "list_all (\<lambda>eku. 0 \<le> eku \<and> eku \<le> 11) (elems (x509_ExtKeyUsage example_leaf))"
    by (simp add: list_all_iff)
  from CertToStored_total [OF a b c, of failing_marshal example_now "''-- --''" "''www.example.com''"
      "''192.0.2.7''" Mozilla_TS_name "Some example_verdict" example_verdict]
  have "\<exists>stored. CertToStored failing_marshal example_now example_leaf ''-- --'' ''www.example.com''
       ''192.0.2.7'' Mozilla_TS_name (Some example_verdict) = Inr stored"
    by blast
  with a b' c show ?thesis by blast
qed

end
